theory Spec2Isabelle
  imports Complex_Main "HOL-Library.Char_ord" "HOL-Library.List_Lexorder"
begin

section \<open>Characters and strings as Python's \<open>str\<close> methods see them\<close>

text \<open>
  Text is a \<^typ>\<open>string\<close>; the model follows Python on ASCII text. A character above
  0x7F is treated as an uncased character that is neither a word character, a digit nor
  white space.
\<close>

definition is_digit :: "char \<Rightarrow> bool" where
  "is_digit c = (CHR ''0'' \<le> c \<and> c \<le> CHR ''9'')"

definition is_upper :: "char \<Rightarrow> bool" where
  "is_upper c = (CHR ''A'' \<le> c \<and> c \<le> CHR ''Z'')"

definition is_lower :: "char \<Rightarrow> bool" where
  "is_lower c = (CHR ''a'' \<le> c \<and> c \<le> CHR ''z'')"

definition is_word :: "char \<Rightarrow> bool" where
  "is_word c = (is_digit c \<or> is_upper c \<or> is_lower c \<or> c = CHR ''_'')"

text \<open>White space of \<open>\s\<close> and of \<open>str.strip()\<close>: tab, LF, VT, FF, CR, FS, GS, RS, US, space.\<close>

definition is_space :: "char \<Rightarrow> bool" where
  "is_space c = (c = CHR '' '' \<or> (CHR 0x09 \<le> c \<and> c \<le> CHR 0x0D) \<or> (CHR 0x1C \<le> c \<and> c \<le> CHR 0x1F))"

text \<open>
  An ASCII letter and its other case differ in the bit of value 32, which is set in the
  lower-case letter.
\<close>

fun with_bit5 :: "bool \<Rightarrow> char \<Rightarrow> char" where
  "with_bit5 v (Char b0 b1 b2 b3 b4 b5 b6 b7) = Char b0 b1 b2 b3 b4 v b6 b7"

definition lower_char :: "char \<Rightarrow> char" where
  "lower_char c = (if is_upper c then with_bit5 True c else c)"

definition upper_char :: "char \<Rightarrow> char" where
  "upper_char c = (if is_lower c then with_bit5 False c else c)"

definition lower :: "string \<Rightarrow> string" where
  "lower s = map lower_char s"

definition upper :: "string \<Rightarrow> string" where
  "upper s = map upper_char s"

definition lstrip_by :: "(char \<Rightarrow> bool) \<Rightarrow> string \<Rightarrow> string" where
  "lstrip_by P s = dropWhile P s"

definition rstrip_by :: "(char \<Rightarrow> bool) \<Rightarrow> string \<Rightarrow> string" where
  "rstrip_by P s = rev (dropWhile P (rev s))"

definition strip_by :: "(char \<Rightarrow> bool) \<Rightarrow> string \<Rightarrow> string" where
  "strip_by P s = rstrip_by P (lstrip_by P s)"

text \<open>\<open>s.strip()\<close> and \<open>s.strip(chars)\<close>.\<close>

definition strip :: "string \<Rightarrow> string" where
  "strip s = strip_by is_space s"

definition strip_chars :: "string \<Rightarrow> string \<Rightarrow> string" where
  "strip_chars cs s = strip_by (\<lambda>c. c \<in> set cs) s"

fun startswith :: "string \<Rightarrow> string \<Rightarrow> bool" where
  "startswith s [] = True"
| "startswith [] (p # ps) = False"
| "startswith (c # s) (p # ps) = (c = p \<and> startswith s ps)"

text \<open>\<open>sub in s\<close> on strings.\<close>

fun contains :: "string \<Rightarrow> string \<Rightarrow> bool" where
  "contains [] sub = (sub = [])"
| "contains (c # s) sub = (startswith (c # s) sub \<or> contains s sub)"

text \<open>\<open>s.replace(c, "")\<close> for a one-character \<open>c\<close>.\<close>

definition remove_char :: "char \<Rightarrow> string \<Rightarrow> string" where
  "remove_char c s = filter (\<lambda>x. x \<noteq> c) s"

text \<open>\<open>s.split()\<close>: the maximal runs of characters that are not white space.\<close>

fun split_ws_acc :: "string \<Rightarrow> string \<Rightarrow> string list" where
  "split_ws_acc acc [] = (if acc = [] then [] else [rev acc])"
| "split_ws_acc acc (c # s) =
     (if is_space c then (if acc = [] then split_ws_acc [] s else rev acc # split_ws_acc [] s)
      else split_ws_acc (c # acc) s)"

definition split_ws :: "string \<Rightarrow> string list" where
  "split_ws s = split_ws_acc [] s"

section \<open>Regular expressions with the matching order of Python's \<open>re\<close>\<close>

datatype citem = CChar char | CRange char char | CDigit | CSpace | CWord | CNotWord

datatype re =
    Lit char
  | Cls bool "citem list"
  | Dot
  | Eps
  | Seq re re
  | Alt re re
  | Rep re nat "nat option" bool
  | Grp nat re
  | WordB
  | Bol
  | Eol
  | Ahead re

datatype flags = Flags (icase: bool) (dotall: bool)

definition lit_match :: "flags \<Rightarrow> char \<Rightarrow> char \<Rightarrow> bool" where
  "lit_match f c x = (if icase f then lower_char c = lower_char x else c = x)"

fun citem_match :: "bool \<Rightarrow> citem \<Rightarrow> char \<Rightarrow> bool" where
  "citem_match ic (CChar c) x = (if ic then lower_char c = x else c = x)"
| "citem_match ic (CRange lo hi) x =
     ((lo \<le> x \<and> x \<le> hi) \<or> (ic \<and> lo \<le> upper_char x \<and> upper_char x \<le> hi))"
| "citem_match ic CDigit x = is_digit x"
| "citem_match ic CSpace x = is_space x"
| "citem_match ic CWord x = is_word x"
| "citem_match ic CNotWord x = (\<not> is_word x)"

text \<open>
  A character set: under IGNORECASE the character is lowered first, and the set holds
  the lowered forms of its members; a negated set inverts the outcome.
\<close>

definition cls_match :: "flags \<Rightarrow> bool \<Rightarrow> citem list \<Rightarrow> char \<Rightarrow> bool" where
  "cls_match f neg items x =
     (let x' = (if icase f then lower_char x else x);
          hit = list_ex (\<lambda>i. citem_match (icase f) i x') items
      in if neg then \<not> hit else hit)"

text \<open>
  A matching state: the character before the position (None at the start of the string),
  the text from the position on, and the groups captured so far (the newest first). A
  captured group is kept as the text from its start on and the text from its end on.

  The functions that walk along the text are written with one equation for each case of
  a test, the test being an argument of a helper function, not with \<open>if\<close> or
  \<open>case\<close>.
\<close>

type_synonym captures = "(nat \<times> string \<times> string) list"

type_synonym mstate = "char option \<times> string \<times> captures"

fun word_before :: "char option \<Rightarrow> bool" where
  "word_before None = False"
| "word_before (Some c) = is_word c"

fun word_after :: "string \<Rightarrow> bool" where
  "word_after [] = False"
| "word_after (c # s) = is_word c"

text \<open>\<open>\b\<close>: exactly one of the two neighbours is a word character.\<close>

definition at_boundary :: "char option \<Rightarrow> string \<Rightarrow> bool" where
  "at_boundary p s = (word_before p \<noteq> word_after s)"

text \<open>\<open>$\<close>: the end of the string, or the newline that ends it.\<close>

fun at_end :: "string \<Rightarrow> bool" where
  "at_end [] = True"
| "at_end [c] = (c = CHR 0x0A)"
| "at_end (c # d # s) = False"

definition dot_match :: "flags \<Rightarrow> char \<Rightarrow> bool" where
  "dot_match f x = (dotall f \<or> x \<noteq> CHR 0x0A)"

text \<open>\<open>[st] if b else []\<close>, and \<open>[st] + acc if b else acc\<close>.\<close>

fun one_if :: "bool \<Rightarrow> mstate \<Rightarrow> mstate list" where
  "one_if True st = [st]"
| "one_if False st = []"

fun stop_if :: "bool \<Rightarrow> mstate \<Rightarrow> mstate list \<Rightarrow> mstate list" where
  "stop_if True st acc = st # acc"
| "stop_if False st acc = acc"

definition dec :: "nat option \<Rightarrow> nat option" where
  "dec hi = map_option (\<lambda>h. h - 1) hi"

text \<open>
  The repetition of a pattern \<open>P\<close> of one character, between \<open>lo\<close> and \<open>hi\<close> times:
  the states in which it can stop. The greedy repetition tries the longest run first
  (the states are collected from the shortest run on, each put in front of the ones
  before), the lazy one the shortest.
\<close>

fun rep_greedy :: "(char \<Rightarrow> bool) \<Rightarrow> nat \<Rightarrow> nat option \<Rightarrow> char option \<Rightarrow> string \<Rightarrow> captures \<Rightarrow> mstate list \<Rightarrow> mstate list"
  and rep_greedy_step :: "bool \<Rightarrow> (char \<Rightarrow> bool) \<Rightarrow> nat \<Rightarrow> nat option \<Rightarrow> char \<Rightarrow> string \<Rightarrow> captures \<Rightarrow> mstate list \<Rightarrow> mstate list" where
  "rep_greedy P lo hi p [] g acc = stop_if (lo = 0) (p, [], g) acc"
| "rep_greedy P lo hi p (x # xs) g acc =
     rep_greedy_step (hi \<noteq> Some 0 \<and> P x) P lo hi x xs g (stop_if (lo = 0) (p, x # xs, g) acc)"
| "rep_greedy_step True P lo hi x xs g acc = rep_greedy P (lo - 1) (dec hi) (Some x) xs g acc"
| "rep_greedy_step False P lo hi x xs g acc = acc"

fun rep_lazy :: "(char \<Rightarrow> bool) \<Rightarrow> nat \<Rightarrow> nat option \<Rightarrow> char option \<Rightarrow> string \<Rightarrow> captures \<Rightarrow> mstate list"
  and rep_lazy_step :: "bool \<Rightarrow> (char \<Rightarrow> bool) \<Rightarrow> nat \<Rightarrow> nat option \<Rightarrow> char \<Rightarrow> string \<Rightarrow> captures \<Rightarrow> mstate list" where
  "rep_lazy P lo hi p [] g = stop_if (lo = 0) (p, [], g) []"
| "rep_lazy P lo hi p (x # xs) g =
     stop_if (lo = 0) (p, x # xs, g) (rep_lazy_step (hi \<noteq> Some 0 \<and> P x) P lo hi x xs g)"
| "rep_lazy_step True P lo hi x xs g = rep_lazy P (lo - 1) (dec hi) (Some x) xs g"
| "rep_lazy_step False P lo hi x xs g = []"

fun rep_chars :: "(char \<Rightarrow> bool) \<Rightarrow> nat \<Rightarrow> nat option \<Rightarrow> bool \<Rightarrow> mstate \<Rightarrow> mstate list" where
  "rep_chars P lo hi True (p, s, g) = rep_greedy P lo hi p s g []"
| "rep_chars P lo hi False (p, s, g) = rep_lazy P lo hi p s g"

fun add_group :: "nat \<Rightarrow> string \<Rightarrow> mstate \<Rightarrow> mstate" where
  "add_group n s (p', s', g') = (p', s', (n, s, s') # g')"

text \<open>A lookahead: the state itself when the pattern has a match from it.\<close>

fun ahead :: "mstate list \<Rightarrow> mstate \<Rightarrow> mstate list" where
  "ahead [] st = []"
| "ahead (m # ms) st = [st]"

fun rsize :: "re \<Rightarrow> nat" where
  "rsize (Seq a b) = Suc (rsize a + rsize b)"
| "rsize (Alt a b) = Suc (rsize a + rsize b)"
| "rsize (Rep r lo hi g) = Suc (rsize r)"
| "rsize (Grp n r) = Suc (rsize r)"
| "rsize (Ahead r) = Suc (rsize r)"
| "rsize r = 0"

text \<open>
  \<open>rm f r st\<close> lists the states in which a match of \<open>r\<close> begun in \<open>st\<close> can end, in
  the order in which a backtracking matcher tries them: the head is the match that
  \<open>re\<close> reports. A repetition of a one-character pattern is the loop above; one round
  of any other repetition has to consume a character.
\<close>

function (sequential) rm :: "flags \<Rightarrow> re \<Rightarrow> mstate \<Rightarrow> mstate list" where
  "rm f (Lit c) (p, [], g) = []"
| "rm f (Lit c) (p, x # xs, g) = one_if (lit_match f c x) (Some x, xs, g)"
| "rm f (Cls neg items) (p, [], g) = []"
| "rm f (Cls neg items) (p, x # xs, g) = one_if (cls_match f neg items x) (Some x, xs, g)"
| "rm f Dot (p, [], g) = []"
| "rm f Dot (p, x # xs, g) = one_if (dot_match f x) (Some x, xs, g)"
| "rm f Eps st = [st]"
| "rm f (Seq a b) st = concat (map (rm f b) (rm f a st))"
| "rm f (Alt a b) st = rm f a st @ rm f b st"
| "rm f (Rep (Lit c) lo hi greedy) st = rep_chars (lit_match f c) lo hi greedy st"
| "rm f (Rep (Cls neg items) lo hi greedy) st = rep_chars (cls_match f neg items) lo hi greedy st"
| "rm f (Rep Dot lo hi greedy) st = rep_chars (dot_match f) lo hi greedy st"
| "rm f (Rep r lo hi greedy) st =
     (let stop = (if lo = 0 then [st] else []);
          more = (if hi = Some 0 then []
                  else concat (map (\<lambda>st'.
                         if length (fst (snd st')) < length (fst (snd st))
                         then rm f (Rep r (lo - 1) (dec hi) greedy) st'
                         else [])
                       (rm f r st)))
      in if greedy then more @ stop else stop @ more)"
| "rm f (Grp n r) (p, s, g) = map (add_group n s) (rm f r (p, s, g))"
| "rm f WordB (p, s, g) = one_if (at_boundary p s) (p, s, g)"
| "rm f Bol (None, s, g) = [(None, s, g)]"
| "rm f Bol (Some c, s, g) = []"
| "rm f Eol (p, s, g) = one_if (at_end s) (p, s, g)"
| "rm f (Ahead r) st = ahead (rm f r st) st"
  by pat_completeness auto
termination
  by (relation "measures [\<lambda>(f, r, st). rsize r, \<lambda>(f, r, st). length (fst (snd st))]") auto

text \<open>
  A match: the text before it, the matched text (group 0), the captured groups, the
  character before the rest and the rest.
\<close>

record rmatch =
  m_before :: string
  m_text :: string
  m_groups :: captures
  m_prev :: "char option"
  m_rest :: string

text \<open>The text of a captured group.\<close>

definition captured :: "string \<times> string \<Rightarrow> string" where
  "captured se = take (length (fst se) - length (snd se)) (fst se)"

text \<open>\<open>m.group(n)\<close> for \<open>n > 0\<close>: None when the group took no part in the match.\<close>

definition group :: "rmatch \<Rightarrow> nat \<Rightarrow> string option" where
  "group m n = map_option captured (map_of (m_groups m) n)"

text \<open>\<open>m.start()\<close>.\<close>

definition m_start :: "rmatch \<Rightarrow> nat" where
  "m_start m = length (m_before m)"

text \<open>
  \<open>re.search\<close> from a position on: the leftmost start that has a match. \<open>acc\<close> is
  the text before the position, in reverse.
\<close>

fun search_from :: "flags \<Rightarrow> re \<Rightarrow> char option \<Rightarrow> string \<Rightarrow> string \<Rightarrow> rmatch option"
  and search_res :: "flags \<Rightarrow> re \<Rightarrow> string \<Rightarrow> string \<Rightarrow> mstate list \<Rightarrow> rmatch option" where
  "search_from f r p acc s = search_res f r acc s (rm f r (p, s, []))"
| "search_res f r acc s ((p', s', g') # ms) =
     Some \<lparr>m_before = rev acc, m_text = captured (s, s'), m_groups = g', m_prev = p', m_rest = s'\<rparr>"
| "search_res f r acc [] [] = None"
| "search_res f r acc (x # xs) [] = search_from f r (Some x) (x # acc) xs"

definition re_search :: "flags \<Rightarrow> re \<Rightarrow> string \<Rightarrow> rmatch option" where
  "re_search f r s = search_from f r None [] s"

text \<open>
  The successive matches of \<open>re.finditer\<close>, each with the text between it and the
  match before, and the text after the last match. \<open>scan_hit\<close> gets the number of
  characters that the match consumed. None of the patterns of the parser matches the
  empty string; a match that consumed nothing is stepped over by one character.
\<close>

fun add_match :: "string \<times> string \<times> captures \<Rightarrow> (string \<times> string \<times> captures) list \<times> string \<Rightarrow> (string \<times> string \<times> captures) list \<times> string" where
  "add_match m (ms, rest) = (m # ms, rest)"

function scan :: "flags \<Rightarrow> re \<Rightarrow> char option \<Rightarrow> string \<Rightarrow> string \<Rightarrow> (string \<times> string \<times> captures) list \<times> string"
  and scan_res :: "flags \<Rightarrow> re \<Rightarrow> string \<Rightarrow> string \<Rightarrow> mstate list \<Rightarrow> (string \<times> string \<times> captures) list \<times> string"
  and scan_hit :: "nat \<Rightarrow> flags \<Rightarrow> re \<Rightarrow> string \<Rightarrow> string \<Rightarrow> char option \<Rightarrow> captures \<Rightarrow> (string \<times> string \<times> captures) list \<times> string" where
  "scan f r p acc s = scan_res f r acc s (rm f r (p, s, []))"
| "scan_res f r acc [] [] = ([], rev acc)"
| "scan_res f r acc (x # xs) [] = scan f r (Some x) (x # acc) xs"
| "scan_res f r acc s ((p', s', g') # ms) = scan_hit (length s - length s') f r acc s p' g'"
| "scan_hit 0 f r acc [] p' g' = ([(rev acc, [], g')], [])"
| "scan_hit 0 f r acc (x # xs) p' g' = add_match (rev acc, [], g') (scan f r (Some x) [x] xs)"
| "scan_hit (Suc k) f r acc [] p' g' = ([], rev acc)"
| "scan_hit (Suc k) f r acc (x # xs) p' g' =
     add_match (rev acc, take (Suc k) (x # xs), g') (scan f r p' [] (drop k xs))"
  by pat_completeness auto
termination
  by (relation "measure (\<lambda>a. case a of
          Inl (f, r, p, acc, s) \<Rightarrow> 3 * length s + 2
        | Inr (Inl (f, r, acc, s, ms)) \<Rightarrow> 3 * length s + 1
        | Inr (Inr (k, f, r, acc, s, p', g')) \<Rightarrow> 3 * length s)") auto

text \<open>\<open>re.findall\<close> for a pattern without groups, and for a pattern with the one group 1.\<close>

definition re_findall :: "flags \<Rightarrow> re \<Rightarrow> string \<Rightarrow> string list" where
  "re_findall f r s = map (\<lambda>m. fst (snd m)) (fst (scan f r None [] s))"

definition re_findall1 :: "flags \<Rightarrow> re \<Rightarrow> string \<Rightarrow> string list" where
  "re_findall1 f r s =
     map (\<lambda>m. case map_of (snd (snd m)) 1 of None \<Rightarrow> [] | Some se \<Rightarrow> captured se)
         (fst (scan f r None [] s))"

text \<open>\<open>re.split\<close> for a pattern without groups.\<close>

definition re_split :: "flags \<Rightarrow> re \<Rightarrow> string \<Rightarrow> string list" where
  "re_split f r s = (case scan f r None [] s of (ms, rest) \<Rightarrow> map fst ms @ [rest])"

text \<open>\<open>re.sub\<close> with a replacement that has no group reference.\<close>

definition re_sub :: "flags \<Rightarrow> re \<Rightarrow> string \<Rightarrow> string \<Rightarrow> string" where
  "re_sub f r repl s =
     (case scan f r None [] s of (ms, rest) \<Rightarrow> concat (map (\<lambda>m. fst m @ repl) ms) @ rest)"

subsection \<open>Pattern notation\<close>

definition star :: "re \<Rightarrow> re" where
  "star r = Rep r 0 None True"

definition plus :: "re \<Rightarrow> re" where
  "plus r = Rep r 1 None True"

text \<open>\<open>r?\<close>: \<open>r\<close> if it matches, else nothing.\<close>

definition opt :: "re \<Rightarrow> re" where
  "opt r = Alt r Eps"

definition seqs :: "re list \<Rightarrow> re" where
  "seqs rs = foldr Seq rs Eps"

definition lits :: "string \<Rightarrow> re" where
  "lits s = seqs (map Lit s)"

fun alts :: "re list \<Rightarrow> re" where
  "alts [] = Cls False []"
| "alts [r] = r"
| "alts (r # rs) = Alt r (alts rs)"

definition no_flags :: flags where
  "no_flags = Flags False False"

definition IGNORECASE :: flags where
  "IGNORECASE = Flags True False"

definition IGNORECASE_S :: flags where
  "IGNORECASE_S = Flags True True"


section \<open>Python dictionaries, numbers and exceptions\<close>

text \<open>
  A \<open>dict\<close> is an association list with distinct keys in insertion order:
  \<open>d.get(k)\<close> is \<^const>\<open>map_of\<close>, \<open>d[k] = v\<close> is \<open>dict_set\<close> (a key that is
  present keeps its place), \<open>d.update(e)\<close> is \<open>dict_update\<close>.
\<close>

fun dict_set :: "('k \<times> 'v) list \<Rightarrow> 'k \<Rightarrow> 'v \<Rightarrow> ('k \<times> 'v) list" where
  "dict_set [] k v = [(k, v)]"
| "dict_set ((k', v') # d) k v = (if k' = k then (k, v) # d else (k', v') # dict_set d k v)"

definition dict_update :: "('k \<times> 'v) list \<Rightarrow> ('k \<times> 'v) list \<Rightarrow> ('k \<times> 'v) list" where
  "dict_update d e = foldl (\<lambda>acc kv. dict_set acc (fst kv) (snd kv)) d e"

text \<open>
  A Python \<open>float\<close> is modelled by a \<^typ>\<open>real\<close>: arithmetic is exact, and rounding
  errors, infinities and NaN are outside the model. \<open>round(x, 2)\<close> rounds the exact
  value to two decimals, a tie going to the even neighbour.
\<close>

definition round_half_even :: "real \<Rightarrow> int" where
  "round_half_even y =
     (let f = \<lfloor>y\<rfloor>; d = y - of_int f
      in if d < 1 / 2 then f else if 1 / 2 < d then f + 1 else if even f then f else f + 1)"

definition round2 :: "real \<Rightarrow> real" where
  "round2 x = of_int (round_half_even (x * 100)) / 100"

text \<open>The truth value of an optional float: \<open>None\<close> and zero are false.\<close>

definition truthy :: "real option \<Rightarrow> bool" where
  "truthy v = (case v of None \<Rightarrow> False | Some x \<Rightarrow> x \<noteq> 0)"

text \<open>Decimal digits: \<open>int(s)\<close> on a string of ASCII digits, and \<open>str(n)\<close> for \<open>n \<ge> 0\<close>.\<close>

definition digit_val :: "char \<Rightarrow> int" where
  "digit_val c = of_char c - of_char CHR ''0''"

definition int_of_digits :: "string \<Rightarrow> int" where
  "int_of_digits s = foldl (\<lambda>n c. 10 * n + digit_val c) 0 s"

function str_nat_acc :: "nat \<Rightarrow> string \<Rightarrow> string" where
  "str_nat_acc n acc =
     (if n < 10 then char_of (n + 48) # acc
      else str_nat_acc (n div 10) (char_of (n mod 10 + 48) # acc))"
  by pat_completeness auto
termination
  by (relation "measure fst") auto

definition str_nat :: "nat \<Rightarrow> string" where
  "str_nat n = str_nat_acc n []"

definition str_int :: "int \<Rightarrow> string" where
  "str_int i = (if i < 0 then CHR ''-'' # str_nat (nat (- i)) else str_nat (nat i))"

text \<open>
  \<open>float(s)\<close> on the strings that \<open>_extract_from_text\<close> hands to it (digits, dots and
  minus signs): an optional sign, then digits with at most one dot and at least one
  digit. \<open>None\<close> stands for the \<open>ValueError\<close>.
\<close>

definition unsigned_float :: "string \<Rightarrow> real option" where
  "unsigned_float s =
     (let ip = takeWhile is_digit s; r = dropWhile is_digit s
      in if r = [] then (if ip = [] then None else Some (of_int (int_of_digits ip)))
         else if hd r = CHR ''.'' \<and> list_all is_digit (tl r) \<and> (ip \<noteq> [] \<or> tl r \<noteq> [])
         then Some (of_int (int_of_digits ip) + of_int (int_of_digits (tl r)) / 10 ^ length (tl r))
         else None)"

definition py_float :: "string \<Rightarrow> real option" where
  "py_float s =
     (case s of
        [] \<Rightarrow> None
      | c # cs \<Rightarrow> if c = CHR ''-'' then map_option uminus (unsigned_float cs)
                  else unsigned_float s)"

datatype py_exn =
    HTTPException nat string
  | ValueError_balance_mismatch real real
  | TypeError
  | AttributeError

section \<open>The parsed document\<close>

text \<open>
  A balance-sheet row: \<open>_extract_table_like_section\<close> builds rows with the four keys,
  \<open>_extract_from_text\<close> rows without \<open>previous_period\<close>. A key-value entry:
  \<open>_extract_simple_kv\<close> builds \<open>{"value", "previous"}\<close>, the fallbacks \<open>{"value"}\<close>.
\<close>

datatype line_item =
    LineItem (item: string) (current_period: "real option") (previous_period: "real option")
      (confidence: string)
  | FallbackItem (item: string) (current_period: "real option") (confidence: string)

datatype kv_entry =
    KV (val: "real option") (previous: "real option")
  | KVvalue (val: "real option")

datatype section_value =
    Items "line_item list"
  | Dict "(string \<times> kv_entry) list"

datatype 'a field = Absent | Present 'a

record meta =
  company :: string
  unit :: string
  period_hint :: "string option field"

type_synonym table = "string option list list"

text \<open>
  The fields are the keys of the dictionary that the parser returns. \<open>kpis\<close> is
  present in the short-circuit document only; \<open>validation_warning\<close> holds the exception
  whose \<open>str\<close> the parser stores.
\<close>

record parsed =
  p_meta :: meta
  p_scale :: real
  p_sections :: "(string \<times> section_value) list"
  p_tables :: "table list"
  p_kpis :: "(string \<times> string) list option"
  p_validation_warning :: "py_exn option"


section \<open>The parser service\<close>

text \<open>
  The functions keep their names in \<open>parser_service.py\<close>, without the leading
  underscore. The two functions that the module imports from the preprocessing service,
  \<open>parse_number\<close> and \<open>detect_document_scale\<close>, are parameters \<open>pn\<close> and \<open>dds\<close>.
  The module's one global that functions read, \<open>_NUM_TOKEN_RE\<close>, is a field of the
  record of the module's globals, which is passed to the functions that read it.
\<close>

definition D09 :: citem where
  "D09 = CRange CHR ''0'' CHR ''9''"

definition AZ :: citem where
  "AZ = CRange CHR ''A'' CHR ''Z''"

definition az :: citem where
  "az = CRange CHR ''a'' CHR ''z''"

definition ws :: re where
  "ws = Cls False [CSpace]"

definition digit :: re where
  "digit = Cls False [CDigit]"

text \<open>\<open>\(?[0-9][0-9,\.()]*\)?\<close>\<close>

definition num_token :: re where
  "num_token =
     seqs [opt (Lit CHR ''(''), Cls False [D09],
           star (Cls False [D09, CChar CHR '','', CChar CHR ''.'', CChar CHR ''('', CChar CHR '')'']),
           opt (Lit CHR '')'')]"

record globals =
  NUM_TOKEN_RE :: re

definition module_globals :: globals where
  "module_globals = \<lparr>NUM_TOKEN_RE = num_token\<rparr>"

definition group_str :: "rmatch \<Rightarrow> nat \<Rightarrow> string" where
  "group_str m n = (case group m n of None \<Rightarrow> [] | Some g \<Rightarrow> g)"

subsection \<open>\<open>_split_into_sections\<close>\<close>

definition section_terms :: "(string \<times> string list) list" where
  "section_terms =
     [(''balance_sheet'', [''balance sheet'', ''statement of financial position'', ''balancesheet'',
                          ''financialposition'']),
      (''pnl'', [''profit and loss'', ''statement of profit and loss'', ''statement of profit'',
                ''profitandloss'', ''statementofprofitandloss'', ''operations'']),
      (''cash_flow'', [''cash flow'', ''statement of cash flows'', ''cashflow'',
                      ''statementofcashflows'']),
      (''changes_in_equity'', [''changes in equity'', ''statement of changes in equity'',
                              ''changesinequity''])]"

text \<open>\<open>[^a-z0-9]*\<close>\<close>

definition gap :: re where
  "gap = star (Cls True [az, D09])"

fun join_re :: "re \<Rightarrow> re list \<Rightarrow> re list" where
  "join_re sep [] = []"
| "join_re sep [r] = [r]"
| "join_re sep (r # rs) = r # sep # join_re sep rs"

definition tolerant_pattern :: "string \<Rightarrow> re" where
  "tolerant_pattern term =
     (let words = re_split no_flags (plus ws) (strip term);
          parts = map (\<lambda>w. seqs (map (\<lambda>c. Seq (Lit c) gap) (lower w))) words
      in seqs ([WordB] @ join_re gap parts @ [WordB]))"

fun first_term_pos :: "string list \<Rightarrow> string \<Rightarrow> nat option" where
  "first_term_pos [] text = None"
| "first_term_pos (t # ts) text =
     (case re_search IGNORECASE (tolerant_pattern t) text of
        Some m \<Rightarrow> Some (m_start m)
      | None \<Rightarrow> first_term_pos ts text)"

definition detect_positions :: "string \<Rightarrow> (string \<times> nat) list" where
  "detect_positions text =
     concat (map (\<lambda>nt. case first_term_pos (snd nt) text of
                          Some i \<Rightarrow> [(fst nt, i)]
                        | None \<Rightarrow> [])
                 section_terms)"

text \<open>\<open>text[a:b]\<close> for \<open>0 \<le> a\<close> and \<open>0 \<le> b\<close>.\<close>

definition py_slice :: "string \<Rightarrow> nat \<Rightarrow> nat \<Rightarrow> string" where
  "py_slice s a b = take (b - a) (drop a s)"

fun slice_blocks :: "string \<Rightarrow> (string \<times> nat) list \<Rightarrow> (string \<times> string) list \<Rightarrow> (string \<times> string) list" where
  "slice_blocks text [] secs = secs"
| "slice_blocks text (it # rest) secs =
     (let end_idx = (case rest of [] \<Rightarrow> length text | nxt # _ \<Rightarrow> snd nxt);
          block = strip (py_slice text (snd it) end_idx)
      in slice_blocks text rest (if 50 < length block then dict_set secs (fst it) block else secs))"

definition split_into_sections :: "string \<Rightarrow> (string \<times> string) list" where
  "split_into_sections text =
     (if text = [] then []
      else let positions = detect_positions text
           in if positions = [] then [(''balance_sheet'', text)]
              else slice_blocks text (sort_key snd positions) [])"

subsection \<open>\<open>_detect_period_hint\<close> and \<open>_extract_meta\<close>\<close>

text \<open>\<open>(June|September|December|March)\s+\d{1,2},?\s*(20\d{2})\<close>\<close>

definition period_date_re :: re where
  "period_date_re =
     seqs [Grp 1 (alts [lits ''June'', lits ''September'', lits ''December'', lits ''March'']),
           plus ws, Rep digit 1 (Some 2) True, opt (Lit CHR '',''), star ws,
           Grp 2 (seqs [lits ''20'', Rep digit 2 (Some 2) True])]"

text \<open>The number after \<open>FY\<close>: the two branches of the conditional expression.\<close>

definition fy_number :: "string \<Rightarrow> int \<Rightarrow> int" where
  "fy_number month year =
     (if month \<in> set [''march''] then (year + 1) mod 100 else year mod 100 + 1)"

definition detect_period_hint :: "string \<Rightarrow> string option" where
  "detect_period_hint text =
     (case re_search no_flags period_date_re text of
        None \<Rightarrow> None
      | Some m \<Rightarrow>
          (let month = lower (group_str m 1);
               year = int_of_digits (group_str m 2);
               fy = ''FY'' @ str_int (fy_number month year);
               quarter = (case map_of [(''june'', ''Q1''), (''september'', ''Q2''),
                                       (''december'', ''Q3''), (''march'', ''Q4'')] month of
                            Some q \<Rightarrow> q
                          | None \<Rightarrow> [])
           in Some (quarter @ '' '' @ fy)))"

text \<open>\<open>\b([A-Z][A-Za-z&\.\s]+?(?:LIMITED|LTD\.))\b\<close>\<close>

definition company_re :: re where
  "company_re =
     seqs [WordB,
           Grp 1 (seqs [Cls False [AZ],
                        Rep (Cls False [AZ, az, CChar CHR ''&'', CChar CHR ''.'', CSpace]) 1 None False,
                        Alt (lits ''LIMITED'') (lits ''LTD.'')]),
           WordB]"

text \<open>\<open>\b(BSE|NSE|Exchange|Societe|Luxembourg|SEBI|Board|Phiroze|Stock)\b\<close>\<close>

definition blacklist_re :: re where
  "blacklist_re =
     seqs [WordB,
           Grp 1 (alts (map lits [''BSE'', ''NSE'', ''Exchange'', ''Societe'', ''Luxembourg'',
                                  ''SEBI'', ''Board'', ''Phiroze'', ''Stock''])),
           WordB]"

text \<open>\<open>(?:For\s+)?([A-Z][A-Za-z\s&\.]+)\s+(?:Ltd\.?|LIMITED)\<close>\<close>

definition for_company_re :: re where
  "for_company_re =
     seqs [opt (seqs [lits ''For'', plus ws]),
           Grp 1 (seqs [Cls False [AZ],
                        plus (Cls False [AZ, az, CSpace, CChar CHR ''&'', CChar CHR ''.''])]),
           plus ws,
           Alt (seqs [lits ''Ltd'', opt (Lit CHR ''.'')]) (lits ''LIMITED'')]"

text \<open>\<open>([A-Z][A-Za-z&\.\s]+)\s*(?=Regd\. Office)\<close>\<close>

definition regd_office_re :: re where
  "regd_office_re =
     seqs [Grp 1 (seqs [Cls False [AZ],
                        plus (Cls False [AZ, az, CChar CHR ''&'', CChar CHR ''.'', CSpace])]),
           star ws, Ahead (lits ''Regd. Office'')]"

text \<open>\<open>(?:as at|as on|quarter ended|half year ended|year ended)\s+([A-Za-z0-9 ,\-]+[0-9]{4})\<close>\<close>

definition period_re :: re where
  "period_re =
     seqs [alts (map lits [''as at'', ''as on'', ''quarter ended'', ''half year ended'',
                           ''year ended'']),
           plus ws,
           Grp 1 (seqs [plus (Cls False [AZ, az, D09, CChar CHR '' '', CChar CHR '','',
                                          CChar CHR ''-'']),
                        Rep (Cls False [D09]) 4 (Some 4) True])]"

text \<open>\<open>max(xs, key=len)\<close> on a list with head \<open>best\<close>: the first of the longest.\<close>

fun max_by_len :: "string \<Rightarrow> string list \<Rightarrow> string" where
  "max_by_len best [] = best"
| "max_by_len best (c # cs) = max_by_len (if length best < length c then c else best) cs"

text \<open>\<open>not company\<close> for a \<open>company\<close> that is \<open>None\<close> or a string.\<close>

definition not_str :: "string option \<Rightarrow> bool" where
  "not_str s = (s = None \<or> s = Some [])"

definition extract_meta :: "string \<Rightarrow> string \<Rightarrow> meta" where
  "extract_meta text unit_label =
     (let candidates = re_findall1 IGNORECASE company_re text;
          filtered_candidates =
            map strip (filter (\<lambda>c. re_search IGNORECASE blacklist_re c = None) candidates);
          company1 = (case filtered_candidates of [] \<Rightarrow> None | c # cs \<Rightarrow> Some (max_by_len c cs));
          company2 =
            (if not_str company1
             then (case re_search IGNORECASE for_company_re text of
                     Some fb \<Rightarrow> Some (strip (group_str fb 1) @ '' Limited'')
                   | None \<Rightarrow> company1)
             else company1);
          company3 =
            (if not_str company2
             then (case re_search IGNORECASE regd_office_re text of
                     Some rg \<Rightarrow> Some (strip (group_str rg 1))
                   | None \<Rightarrow> company2)
             else company2);
          period = (case re_search IGNORECASE period_re text of
                      Some pm \<Rightarrow> Some (strip (group_str pm 1))
                    | None \<Rightarrow> None)
      in \<lparr>company = (case company3 of None \<Rightarrow> ''Unknown'' | Some c \<Rightarrow> if c = [] then ''Unknown'' else c),
          unit = unit_label,
          period_hint = (if not_str period then Absent else Present (detect_period_hint text))\<rparr>)"


subsection \<open>\<open>_normalize_item_name\<close>\<close>

text \<open>\<open>(.{80,120}?)[:;\.\-\,\n]\<close>\<close>

definition cut_re :: re where
  "cut_re =
     seqs [Grp 1 (Rep Dot 80 (Some 120) False),
           Cls False [CChar CHR '':'', CChar CHR '';'', CChar CHR ''.'', CChar CHR ''-'',
                      CChar CHR '','', CChar (CHR 0x0A)]]"

text \<open>\<open>[\W\d]\<close>\<close>

definition nonword_or_digit :: re where
  "nonword_or_digit = Cls False [CNotWord, CDigit]"

text \<open>\<open>s.rsplit(' ', 1)[0]\<close>\<close>

definition rsplit1_head :: "string \<Rightarrow> string" where
  "rsplit1_head s =
     (if CHR '' '' \<in> set s then rev (tl (dropWhile (\<lambda>c. c \<noteq> CHR '' '') (rev s))) else s)"

definition normalize_item_name :: "string \<Rightarrow> string" where
  "normalize_item_name name0 =
     (let name1 = strip (re_sub no_flags (plus ws) '' '' name0);
          name2 = strip_chars '':;,.'' name1;
          name3 = (if 120 < length name2
                   then (case re_search no_flags cut_re name2 of
                           Some cm \<Rightarrow> strip (group_str cm 1)
                         | None \<Rightarrow> rsplit1_head (take 120 name2))
                   else name2);
          name4 = re_sub no_flags (Seq Bol (plus nonword_or_digit)) [] name3
      in re_sub no_flags (Seq (plus nonword_or_digit) Eol) [] name4)"

subsection \<open>\<open>_extract_table_like_section\<close>\<close>

text \<open>\<open>[\n\r]+\<close>\<close>

definition newlines_re :: re where
  "newlines_re = plus (Cls False [CChar (CHR 0x0A), CChar (CHR 0x0D)])"

text \<open>\<open>[;\.\:\-]{1,}\s+\<close>\<close>

definition frag_sep_re :: re where
  "frag_sep_re =
     Seq (Rep (Cls False [CChar CHR '';'', CChar CHR ''.'', CChar CHR '':'', CChar CHR ''-'']) 1 None True)
         (plus ws)"

text \<open>\<open>(DIN|Partner|Director|Chartered Accountants|Mumbai|LLP|CFO|Secretary)\<close>\<close>

definition noise_re :: re where
  "noise_re =
     Grp 1 (alts (map lits [''DIN'', ''Partner'', ''Director'', ''Chartered Accountants'',
                            ''Mumbai'', ''LLP'', ''CFO'', ''Secretary'']))"

text \<open>\<open>'(' + _NUM_TOKEN_RE + '(?:\s+' + _NUM_TOKEN_RE + ')?)\s*$'\<close>\<close>

definition tail_re :: "globals \<Rightarrow> re" where
  "tail_re g =
     seqs [Grp 1 (Seq (NUM_TOKEN_RE g) (opt (Seq (plus ws) (NUM_TOKEN_RE g)))), star ws, Eol]"

text \<open>\<open>\(?[0-9\.,]+\)?\<close>\<close>

definition val_re :: re where
  "val_re =
     seqs [opt (Lit CHR ''(''), plus (Cls False [D09, CChar CHR ''.'', CChar CHR '','']),
           opt (Lit CHR '')'')]"

text \<open>\<open>([0-9]{1,3}(?:,[0-9]{2,3})+)([0-9]{1,3}(?:,[0-9]{2,3})+)$\<close>\<close>

definition comma_group :: re where
  "comma_group =
     Seq (Rep (Cls False [D09]) 1 (Some 3) True)
         (plus (Seq (Lit CHR '','') (Rep (Cls False [D09]) 2 (Some 3) True)))"

definition glued_re :: re where
  "glued_re = seqs [Grp 1 comma_group, Grp 2 comma_group, Eol]"

definition candidate_frags :: "string \<Rightarrow> string list" where
  "candidate_frags section_text =
     concat (map (\<lambda>raw.
                let line = strip raw
                in if line = [] then []
                   else if 500 < length line
                   then filter (\<lambda>f. 5 < length f) (map strip (re_split no_flags frag_sep_re line))
                   else [line])
             (re_split no_flags newlines_re section_text))"

text \<open>One pass of the loop over the fragments: the row appended, or None for \<open>continue\<close>.\<close>

definition table_row :: "globals \<Rightarrow> (string \<Rightarrow> real option) \<Rightarrow> real \<Rightarrow> string \<Rightarrow> line_item option" where
  "table_row g pn scale line =
     (if re_search IGNORECASE noise_re line \<noteq> None then None
      else let nums = re_findall no_flags num_token line
           in if nums = [] then None
              else let tail_match = re_search no_flags (tail_re g) line;
                       vals0 = (case tail_match of
                                  Some tm \<Rightarrow> re_findall no_flags val_re (group_str tm 1)
                                | None \<Rightarrow> take 2 nums);
                       name0 = (case tail_match of
                                  Some tm \<Rightarrow> strip (take (m_start tm) line)
                                | None \<Rightarrow> strip (re_sub no_flags num_token [] line));
                       name = normalize_item_name name0;
                       vals = (case vals0 of
                                 [glued] \<Rightarrow>
                                   (case re_search no_flags glued_re glued of
                                      Some mg \<Rightarrow> [group_str mg 1, group_str mg 2]
                                    | None \<Rightarrow> vals0)
                               | _ \<Rightarrow> vals0);
                       curr = map_option (\<lambda>x. x * scale)
                                (case vals of v # _ \<Rightarrow> pn v | [] \<Rightarrow> None);
                       prev = map_option (\<lambda>x. x * scale)
                                (case vals of _ # v # _ \<Rightarrow> pn v | _ \<Rightarrow> None)
                   in if startswith (lower name) ''note'' \<or> startswith (lower name) ''annexure''
                      then None
                      else if (case curr of
                                 Some c \<Rightarrow> \<bar>c\<bar> < 100 \<and> length (split_ws name) < 3
                               | None \<Rightarrow> False)
                      then None
                      else Some (LineItem name curr prev (if curr \<noteq> None then ''high'' else ''low'')))"

definition extract_table_like_section :: "globals \<Rightarrow> (string \<Rightarrow> real option) \<Rightarrow> string \<Rightarrow> real \<Rightarrow> line_item list" where
  "extract_table_like_section g pn section_text scale =
     (if section_text = [] then []
      else List.map_filter (table_row g pn scale) (candidate_frags section_text))"

subsection \<open>\<open>_extract_simple_kv\<close>\<close>

text \<open>\<open>'(.{3,200}?)\s+(' + _NUM_TOKEN_RE + ')(?:\s+(' + _NUM_TOKEN_RE + '))?\s*$'\<close>\<close>

definition kv_re :: "globals \<Rightarrow> re" where
  "kv_re g =
     seqs [Grp 1 (Rep Dot 3 (Some 200) False), plus ws, Grp 2 (NUM_TOKEN_RE g),
           opt (Seq (plus ws) (Grp 3 (NUM_TOKEN_RE g))), star ws, Eol]"

definition kv_line :: "globals \<Rightarrow> (string \<Rightarrow> real option) \<Rightarrow> real \<Rightarrow> (string \<times> kv_entry) list \<Rightarrow> string \<Rightarrow> (string \<times> kv_entry) list" where
  "kv_line g pn scale out raw =
     (let line = strip raw
      in if line = [] then out
         else (case re_search no_flags (kv_re g) line of
                 None \<Rightarrow> out
               | Some m \<Rightarrow>
                   (let key = normalize_item_name (group_str m 1);
                        val1 = map_option (\<lambda>x. x * scale) (pn (group_str m 2));
                        val2 = map_option (\<lambda>x. x * scale)
                                 (case group m 3 of
                                    None \<Rightarrow> None
                                  | Some g3 \<Rightarrow> if g3 = [] then None else pn g3)
                    in dict_set out key (KV val1 val2))))"

definition extract_simple_kv :: "globals \<Rightarrow> (string \<Rightarrow> real option) \<Rightarrow> string \<Rightarrow> real \<Rightarrow> (string \<times> kv_entry) list" where
  "extract_simple_kv g pn section_text scale =
     (if section_text = [] then []
      else foldl (kv_line g pn scale) [] (re_split no_flags newlines_re section_text))"


subsection \<open>\<open>_extract_from_text\<close> and \<open>_extract_pnl_from_text\<close>\<close>

text \<open>\<open>.*?([0-9\)\(][0-9\.,\(\)-]*)\<close>, the tail of each pattern of \<open>_extract_from_text\<close>.\<close>

definition first_number :: re where
  "first_number =
     Seq (Rep Dot 0 None False)
         (Grp 1 (Seq (Cls False [D09, CChar CHR '')'', CChar CHR ''(''])
                     (star (Cls False [D09, CChar CHR ''.'', CChar CHR '','', CChar CHR ''('',
                                       CChar CHR '')'', CChar CHR ''-'']))))"

definition fallback_patterns :: "(string \<times> re) list" where
  "fallback_patterns =
     [(''TOTAL ASSETS'', seqs [lits ''TOTAL'', star ws, lits ''ASSETS'', first_number]),
      (''TOTAL EQUITY'', seqs [lits ''TOTAL'', star ws, lits ''EQUITY'', first_number]),
      (''TOTAL LIABILITIES'',
         seqs [lits ''TOTAL'', star ws,
               Alt (lits ''LIABILITIES'') (seqs [lits ''CURRENT'', star ws, lits ''LIABILITIES'']),
               first_number]),
      (''REVENUE'',
         seqs [alts [lits ''REVENUE'',
                     seqs [lits ''TOTAL'', plus ws, lits ''INCOME''],
                     seqs [lits ''REVENUE'', plus ws, lits ''FROM'', plus ws, lits ''OPERATIONS'']],
               first_number]),
      (''PROFIT FOR THE PERIOD'',
         seqs [lits ''PROFIT'', star ws, lits ''FOR'', star ws, lits ''THE'', star ws,
               lits ''PERIOD'', first_number])]"

text \<open>
  One pass of the loop over the patterns, on the pair of the \<open>balance_sheet\<close> list and
  the \<open>pnl\<close> dictionary of \<open>extracted\<close>.
\<close>

definition fallback_step :: "string \<Rightarrow> line_item list \<times> (string \<times> kv_entry) list \<Rightarrow> string \<times> re \<Rightarrow> line_item list \<times> (string \<times> kv_entry) list" where
  "fallback_step text ex lp =
     (case re_search IGNORECASE_S (snd lp) text of
        None \<Rightarrow> ex
      | Some m \<Rightarrow>
          (case py_float (remove_char CHR '')'' (remove_char CHR ''(''
                           (remove_char CHR '','' (group_str m 1)))) of
             None \<Rightarrow> ex
           | Some num \<Rightarrow>
               (if contains (fst lp) ''ASSET'' \<or> contains (fst lp) ''EQUITY'' \<or>
                   contains (fst lp) ''LIABIL''
                then (fst ex @ [FallbackItem (fst lp) (Some num) ''high''], snd ex)
                else if contains (fst lp) ''REV''
                then (fst ex, dict_set (snd ex) ''Revenue'' (KVvalue (Some num)))
                else if contains (fst lp) ''PROFIT''
                then (fst ex, dict_set (snd ex) ''Profit for the Period'' (KVvalue (Some num)))
                else ex)))"

definition extract_from_text :: "string \<Rightarrow> (string \<times> section_value) list" where
  "extract_from_text raw_text =
     (let text = re_sub no_flags (plus ws) '' '' (remove_char CHR '','' (upper raw_text));
          ex = foldl (fallback_step text) ([], []) fallback_patterns
      in [(''balance_sheet'', Items (fst ex)), (''pnl'', Dict (snd ex)), (''cash_flow'', Dict [])])"

text \<open>\<open>\s*[:\-]?\s*([0-9\(\)\.,]+)\<close>, the tail of each pattern of \<open>_extract_pnl_from_text\<close>.\<close>

definition labelled_number :: re where
  "labelled_number =
     seqs [star ws, opt (Cls False [CChar CHR '':'', CChar CHR ''-'']), star ws,
           Grp 1 (plus (Cls False [D09, CChar CHR ''('', CChar CHR '')'', CChar CHR ''.'',
                                   CChar CHR '','']))]"

definition pnl_patterns :: "(re \<times> string) list" where
  "pnl_patterns =
     [(seqs [alts [seqs [lits ''TOTAL'', plus ws, lits ''INCOME''],
                   seqs [lits ''TOTAL'', plus ws, lits ''REVENUE''],
                   seqs [lits ''REVENUE'', plus ws, lits ''FROM'', plus ws, lits ''OPERATIONS''],
                   lits ''REVENUE''],
             labelled_number], ''Revenue''),
      (seqs [alts [seqs [lits ''PROFIT'', plus ws, lits ''FOR'', plus ws, lits ''THE'', plus ws,
                         lits ''PERIOD''],
                   seqs [lits ''NET'', plus ws, lits ''PROFIT''],
                   seqs [lits ''PROFIT'', plus ws, lits ''AFTER'', plus ws, lits ''TAX''],
                   lits ''PAT''],
             labelled_number], ''Profit for the Period''),
      (seqs [alts [seqs [lits ''PROFIT'', plus ws, lits ''BEFORE'', plus ws, lits ''TAX''],
                   lits ''PBT''],
             labelled_number], ''Profit Before Tax'')]"

definition pnl_step :: "(string \<Rightarrow> real option) \<Rightarrow> string \<Rightarrow> real \<Rightarrow> (string \<times> kv_entry) list \<Rightarrow> re \<times> string \<Rightarrow> (string \<times> kv_entry) list" where
  "pnl_step pn text scale out pl =
     (case re_search IGNORECASE (fst pl) text of
        None \<Rightarrow> out
      | Some m \<Rightarrow>
          (case pn (group_str m 1) of
             None \<Rightarrow> out
           | Some num \<Rightarrow> dict_set out (snd pl) (KVvalue (Some (num * scale)))))"

definition extract_pnl_from_text :: "(string \<Rightarrow> real option) \<Rightarrow> string \<Rightarrow> real \<Rightarrow> (string \<times> kv_entry) list" where
  "extract_pnl_from_text pn text scale =
     (if text = [] then [] else foldl (pnl_step pn text scale) [] pnl_patterns)"

subsection \<open>\<open>_validate_basic_balance\<close>\<close>

text \<open>\<open>parsed.get("sections", {}).get("balance_sheet", [])\<close>\<close>

definition balance_sheet_of :: "parsed \<Rightarrow> section_value" where
  "balance_sheet_of p =
     (case map_of (p_sections p) ''balance_sheet'' of None \<Rightarrow> Items [] | Some v \<Rightarrow> v)"

definition find_item :: "line_item list \<Rightarrow> string \<Rightarrow> line_item option" where
  "find_item bs key_substr =
     find (\<lambda>it. item it \<noteq> [] \<and> contains (upper (item it)) key_substr) bs"

text \<open>
  One summand of \<open>rhs\<close>: zero for a row that was not found; a row whose
  \<open>current_period\<close> is \<open>None\<close> makes the addition raise \<open>TypeError\<close>.
\<close>

definition rhs_side :: "line_item option \<Rightarrow> real option" where
  "rhs_side it = (case it of None \<Rightarrow> Some 0 | Some i \<Rightarrow> current_period i)"

text \<open>
  \<open>Inl\<close> is the exception raised. Rows are looked up in a list; over a dictionary that
  is not empty the loop of \<open>find_item\<close> meets a key, a string, and \<open>it.get\<close> raises.
\<close>

definition validate_basic_balance :: "parsed \<Rightarrow> py_exn + unit" where
  "validate_basic_balance p =
     (case balance_sheet_of p of
        Dict d \<Rightarrow> if d = [] then Inr () else Inl AttributeError
      | Items bs \<Rightarrow>
          (let total_assets = find_item bs ''TOTAL ASSETS'';
               total_eq = find_item bs ''TOTAL EQUITY'';
               total_liab = find_item bs ''TOTAL LIABILITIES''
           in case total_assets of
                None \<Rightarrow> Inr ()
              | Some ta \<Rightarrow>
                  if total_eq = None \<and> total_liab = None then Inr ()
                  else (case (rhs_side total_eq, rhs_side total_liab) of
                          (Some e, Some l) \<Rightarrow>
                            (let rhs = e + l
                             in case current_period ta of
                                  None \<Rightarrow> Inr ()
                                | Some assets \<Rightarrow>
                                    if max 1 (0.001 * \<bar>assets\<bar>) < \<bar>assets - rhs\<bar>
                                    then Inl (ValueError_balance_mismatch assets rhs)
                                    else Inr ())
                        | _ \<Rightarrow> Inl TypeError)))"

subsection \<open>\<open>parse_financial_document\<close>\<close>

text \<open>The fixed summary; its dash is U+2014, three bytes in UTF-8.\<close>

definition no_statements_summary :: string where
  "no_statements_summary =
     ''No financial statements detected '' @ [CHR 0xE2, CHR 0x80, CHR 0x94] @
     '' likely a narrative, CSR, or management discussion section.''"

text \<open>\<open>sections.get(k)\<close> as a truth value, and \<open>sections.get(k, "")\<close>.\<close>

definition section_present :: "(string \<times> string) list \<Rightarrow> string \<Rightarrow> bool" where
  "section_present secs k = (case map_of secs k of None \<Rightarrow> False | Some b \<Rightarrow> b \<noteq> [])"

definition section_text :: "(string \<times> string) list \<Rightarrow> string \<Rightarrow> string" where
  "section_text secs k = (case map_of secs k of None \<Rightarrow> [] | Some b \<Rightarrow> b)"

text \<open>The document of the short circuit.\<close>

definition minimal_document :: "string \<Rightarrow> table list \<Rightarrow> parsed" where
  "minimal_document cleaned_text tbls =
     \<lparr>p_meta = extract_meta cleaned_text ''units'',
      p_scale = 1,
      p_sections = [],
      p_tables = tbls,
      p_kpis = Some [(''summary'', no_statements_summary)],
      p_validation_warning = None\<rparr>"

text \<open>
  The document-wide P&L fallback: it runs when the \<open>pnl\<close> dictionary is empty, and
  updates that dictionary with what it finds.
\<close>

definition pnl_fallback :: "(string \<Rightarrow> real option) \<Rightarrow> string \<Rightarrow> real \<Rightarrow> (string \<times> kv_entry) list \<Rightarrow> (string \<times> kv_entry) list" where
  "pnl_fallback pn cleaned_text scale pnl =
     (if pnl = []
      then (let pnl_fb = extract_pnl_from_text pn cleaned_text scale
            in if pnl_fb \<noteq> [] then dict_update pnl pnl_fb else pnl)
      else pnl)"

text \<open>\<open>parsed["sections"].get(sec) or fallback.get(sec, {})\<close>\<close>

definition or_fallback :: "section_value \<Rightarrow> (string \<times> section_value) list \<Rightarrow> string \<Rightarrow> section_value" where
  "or_fallback v fallback sec =
     (if v = Items [] \<or> v = Dict []
      then (case map_of fallback sec of None \<Rightarrow> Dict [] | Some w \<Rightarrow> w)
      else v)"

text \<open>
  The fallback for an empty balance sheet, on the sections dictionary: it assigns
  \<open>balance_sheet\<close>, \<open>pnl\<close> and \<open>cash_flow\<close> in turn.
\<close>

definition balance_fallback :: "string \<Rightarrow> (string \<times> section_value) list \<Rightarrow> (string \<times> section_value) list" where
  "balance_fallback cleaned_text secs =
     (if map_of secs ''balance_sheet'' = Some (Items [])
      then (let fallback = extract_from_text cleaned_text
            in foldl (\<lambda>acc sec.
                        dict_set acc sec
                          (or_fallback (case map_of acc sec of None \<Rightarrow> Dict [] | Some v \<Rightarrow> v)
                             fallback sec))
                     secs [''balance_sheet'', ''pnl'', ''cash_flow''])
      else secs)"

text \<open>The structured parsing of the four sections, then the two fallbacks.\<close>

definition build_sections :: "globals \<Rightarrow> (string \<Rightarrow> real option) \<Rightarrow> string \<Rightarrow> (string \<times> string) list \<Rightarrow> real \<Rightarrow> (string \<times> section_value) list" where
  "build_sections g pn cleaned_text secs scale =
     (let s1 = dict_set [] ''balance_sheet''
                 (Items (extract_table_like_section g pn (section_text secs ''balance_sheet'') scale));
          pnl = extract_simple_kv g pn (section_text secs ''pnl'') scale;
          s2 = dict_set s1 ''pnl'' (Dict (pnl_fallback pn cleaned_text scale pnl));
          s3 = dict_set s2 ''cash_flow''
                 (Dict (extract_simple_kv g pn (section_text secs ''cash_flow'') scale));
          s4 = dict_set s3 ''changes_in_equity''
                 (Dict (extract_simple_kv g pn (section_text secs ''changes_in_equity'') scale))
      in balance_fallback cleaned_text s4)"

text \<open>The \<open>try\<close> around the validation: an exception becomes the warning.\<close>

definition attach_validation :: "parsed \<Rightarrow> parsed" where
  "attach_validation p =
     (case validate_basic_balance p of
        Inl e \<Rightarrow> p\<lparr>p_validation_warning := Some e\<rparr>
      | Inr u \<Rightarrow> p)"

definition parse_financial_document :: "globals \<Rightarrow> (string \<Rightarrow> real option) \<Rightarrow> (string \<Rightarrow> real \<times> string) \<Rightarrow> string \<Rightarrow> table list \<Rightarrow> py_exn + parsed" where
  "parse_financial_document g pn dds cleaned_text tbls =
     (if cleaned_text = [] then Inl (HTTPException 400 ''Empty cleaned_text'')
      else let scale = fst (dds cleaned_text);
               unit_label = snd (dds cleaned_text);
               secs = split_into_sections cleaned_text
           in if \<not> (section_present secs ''balance_sheet'' \<or> section_present secs ''pnl'')
              then Inr (minimal_document cleaned_text tbls)
              else Inr (attach_validation
                     \<lparr>p_meta = extract_meta cleaned_text unit_label,
                      p_scale = scale,
                      p_sections = build_sections g pn cleaned_text secs scale,
                      p_tables = tbls,
                      p_kpis = None,
                      p_validation_warning = None\<rparr>))"


section \<open>The KPI service: \<open>compute_kpis\<close>\<close>

text \<open>
  A value of the result dictionary is a float or a string. \<open>fmt\<close> is Python's
  conversion of a float to text inside an f-string; it is a parameter.
\<close>

datatype kpi_value = Num real | Str string

text \<open>\<open>parsed.get("sections", {}).get(k, default)\<close>\<close>

definition section_of :: "parsed \<Rightarrow> string \<Rightarrow> section_value \<Rightarrow> section_value" where
  "section_of p k dflt = (case map_of (p_sections p) k of None \<Rightarrow> dflt | Some v \<Rightarrow> v)"

definition item_matches :: "string list \<Rightarrow> line_item \<Rightarrow> bool" where
  "item_matches key_snippets it =
     list_ex (\<lambda>key. item it \<noteq> [] \<and> contains (upper (item it)) key) key_snippets"

text \<open>
  Over a dictionary that is not empty the loop meets a key, a string, and \<open>it.get\<close>
  raises \<open>AttributeError\<close>.
\<close>

definition find_single_value :: "section_value \<Rightarrow> string list \<Rightarrow> py_exn + real option" where
  "find_single_value items key_snippets =
     (case items of
        Items its \<Rightarrow>
          Inr (case find (item_matches key_snippets) its of
                 None \<Rightarrow> None
               | Some it \<Rightarrow> current_period it)
      | Dict d \<Rightarrow> if d = [] \<or> key_snippets = [] then Inr None else Inl AttributeError)"

definition extract_numeric :: "section_value \<Rightarrow> string list \<Rightarrow> real option" where
  "extract_numeric section key_snippets =
     (case section of
        Dict d \<Rightarrow>
          if d = [] then None
          else (case find (\<lambda>kv. list_ex (\<lambda>key. contains (upper (fst kv)) key) key_snippets) d of
             None \<Rightarrow> None
           | Some kv \<Rightarrow> val (snd kv))
      | Items its \<Rightarrow>
          if its = [] then None
          else (case find (item_matches key_snippets) its of
             None \<Rightarrow> None
           | Some it \<Rightarrow> current_period it))"

definition kpi_present :: "(string \<times> kpi_value) list \<Rightarrow> string \<Rightarrow> bool" where
  "kpi_present metrics k = (map_of metrics k \<noteq> None)"

definition show_kpi :: "(real \<Rightarrow> string) \<Rightarrow> (string \<times> kpi_value) list \<Rightarrow> string \<Rightarrow> string" where
  "show_kpi fmt metrics k =
     (case map_of metrics k of None \<Rightarrow> [] | Some (Num x) \<Rightarrow> fmt x | Some (Str t) \<Rightarrow> t)"

text \<open>\<open>sep.join(parts)\<close>\<close>

fun join :: "string \<Rightarrow> string list \<Rightarrow> string" where
  "join sep [] = []"
| "join sep [x] = x"
| "join sep (x # xs) = x @ sep @ join sep xs"

text \<open>The rupee sign U+20B9 and the sign U+2248, in UTF-8.\<close>

definition rupee :: string where
  "rupee = [CHR 0xE2, CHR 0x82, CHR 0xB9]"

definition approx_sign :: string where
  "approx_sign = [CHR 0xE2, CHR 0x89, CHR 0x88]"

definition generate_summary :: "(real \<Rightarrow> string) \<Rightarrow> (string \<times> kpi_value) list \<Rightarrow> string" where
  "generate_summary fmt metrics =
     (if metrics = [] then ''Insufficient parsed metrics for summary.''
      else let parts =
                 (if kpi_present metrics ''net_profit_margin_pct''
                  then [''Net profit margin ~ '' @ show_kpi fmt metrics ''net_profit_margin_pct'' @ ''%'']
                  else []) @
                 (if kpi_present metrics ''debt_to_equity''
                  then [''Debt-to-equity ratio ~ '' @ show_kpi fmt metrics ''debt_to_equity'']
                  else []) @
                 (if kpi_present metrics ''equity_to_assets_pct''
                  then [''Equity-to-assets ratio ~ '' @ show_kpi fmt metrics ''equity_to_assets_pct'' @ ''%'']
                  else []) @
                 (if kpi_present metrics ''free_cash_flow''
                  then [''Free cash flow '' @ approx_sign @ '' '' @ rupee @
                        show_kpi fmt metrics ''free_cash_flow'' @ '' crore'']
                  else []) @
                 (if kpi_present metrics ''return_on_equity_pct''
                  then [''Return on equity ~ '' @ show_kpi fmt metrics ''return_on_equity_pct'' @ ''%'']
                  else []) @
                 (if kpi_present metrics ''asset_turnover_ratio''
                  then [''Asset turnover ratio ~ '' @ show_kpi fmt metrics ''asset_turnover_ratio'']
                  else []);
               parts' =
                 (if parts = [] \<and> kpi_present metrics ''revenue'' \<and> kpi_present metrics ''net_profit''
                  then [''Revenue: '' @ rupee @ show_kpi fmt metrics ''revenue'' @
                        '', Net profit: '' @ rupee @ show_kpi fmt metrics ''net_profit'']
                  else parts);
               joined = join ''; '' parts'
           in if joined = [] then ''Insufficient parsed data.'' else joined)"

text \<open>The local variables of \<open>compute_kpis\<close> that outlive a statement, and \<open>result\<close>.\<close>

record kpi_locals =
  total_assets :: "real option"
  total_equity :: "real option"
  total_liabilities :: "real option"
  revenue :: "real option"
  net_profit :: "real option"
  result :: "(string \<times> kpi_value) list"

text \<open>\<open>if a and b: result[k] = round(v, 2)\<close>\<close>

definition ratio :: "real option \<Rightarrow> real option \<Rightarrow> string \<Rightarrow> real \<Rightarrow> (string \<times> kpi_value) list \<Rightarrow> (string \<times> kpi_value) list" where
  "ratio a b k v res = (if truthy a \<and> truthy b then dict_set res k (Num (round2 v)) else res)"

text \<open>\<open>if v is not None: result[k] = v\<close>\<close>

definition raw_value :: "real option \<Rightarrow> string \<Rightarrow> (string \<times> kpi_value) list \<Rightarrow> (string \<times> kpi_value) list" where
  "raw_value v k res = (case v of None \<Rightarrow> res | Some x \<Rightarrow> dict_set res k (Num x))"

definition num :: "real option \<Rightarrow> real" where
  "num v = (case v of None \<Rightarrow> 0 | Some x \<Rightarrow> x)"

text \<open>The five ratios, in the order of the source.\<close>

definition ratios :: "kpi_locals \<Rightarrow> kpi_locals" where
  "ratios l =
     l\<lparr>result :=
         ratio (total_equity l) (net_profit l) ''return_on_equity_pct''
           (num (net_profit l) / num (total_equity l) * 100)
        (ratio (total_assets l) (revenue l) ''asset_turnover_ratio''
           (num (revenue l) / num (total_assets l))
        (ratio (total_assets l) (total_equity l) ''equity_to_assets_pct''
           (num (total_equity l) / num (total_assets l) * 100)
        (ratio (total_equity l) (total_liabilities l) ''debt_to_equity''
           (num (total_liabilities l) / num (total_equity l))
        (ratio (revenue l) (net_profit l) ''net_profit_margin_pct''
           (num (net_profit l) / num (revenue l) * 100)
           (result l)))))\<rparr>"

definition cash_flow_kpi :: "section_value \<Rightarrow> kpi_locals \<Rightarrow> kpi_locals" where
  "cash_flow_kpi cf l =
     (let operating_cf = extract_numeric cf [''NET CASH GENERATED'', ''OPERATING'',
                                             ''CASH GENERATED FROM OPERATIONS''];
          capex = extract_numeric cf [''Purchase'', ''CAPEX'']
      in case (operating_cf, capex) of
           (Some ocf, Some cx) \<Rightarrow>
             l\<lparr>result := dict_set (result l) ''free_cash_flow'' (Num (round2 (ocf - cx)))\<rparr>
         | _ \<Rightarrow> l)"

definition raw_values :: "kpi_locals \<Rightarrow> kpi_locals" where
  "raw_values l =
     l\<lparr>result :=
         raw_value (total_liabilities l) ''total_liabilities''
        (raw_value (total_equity l) ''total_equity''
        (raw_value (total_assets l) ''total_assets''
        (raw_value (net_profit l) ''net_profit''
        (raw_value (revenue l) ''revenue'' (result l)))))\<rparr>"

text \<open>
  The scale correction: when the profit exceeds five times the revenue, it assigns the
  local \<open>revenue\<close> or the local \<open>net_profit\<close>.
\<close>

definition scale_correction :: "kpi_locals \<Rightarrow> kpi_locals" where
  "scale_correction l =
     (if truthy (revenue l) \<and> truthy (net_profit l) \<and> 5 * num (revenue l) < num (net_profit l)
      then (if num (revenue l) < 1000 then l\<lparr>revenue := Some (num (revenue l) * 1000)\<rparr>
            else if 1000000 < num (net_profit l) then l\<lparr>net_profit := Some (num (net_profit l) / 100)\<rparr>
            else l)
      else l)"

definition summary_step :: "(real \<Rightarrow> string) \<Rightarrow> kpi_locals \<Rightarrow> kpi_locals" where
  "summary_step fmt l =
     l\<lparr>result := dict_set (result l) ''summary'' (Str (generate_summary fmt (result l)))\<rparr>"

text \<open>The text of the \<open>AttributeError\<close> that \<open>it.get\<close> raises on a string.\<close>

definition attribute_error_text :: string where
  "attribute_error_text = [CHR 0x27] @ ''str'' @ [CHR 0x27] @ '' object has no attribute '' @
     [CHR 0x27] @ ''get'' @ [CHR 0x27]"

text \<open>
  The three look-ups in the balance sheet and the two in the P&L; an exception leaves
  \<open>result\<close> empty for the handler.
\<close>

definition lookups :: "parsed \<Rightarrow> py_exn + kpi_locals" where
  "lookups p =
     (let bs_items = section_of p ''balance_sheet'' (Items []);
          pnl = section_of p ''pnl'' (Dict [])
      in case find_single_value bs_items [''TOTAL ASSETS''] of
           Inl e \<Rightarrow> Inl e
         | Inr ta \<Rightarrow>
             (case find_single_value bs_items [''TOTAL EQUITY''] of
                Inl e \<Rightarrow> Inl e
              | Inr te \<Rightarrow>
                  (case find_single_value bs_items [''TOTAL LIABILITIES''] of
                     Inl e \<Rightarrow> Inl e
                   | Inr tli \<Rightarrow>
                       Inr \<lparr>total_assets = ta, total_equity = te, total_liabilities = tli,
                            revenue = extract_numeric pnl [''REVENUE'', ''TOTAL INCOME''],
                            net_profit = extract_numeric pnl [''PROFIT'', ''NET PROFIT'',
                                                             ''PROFIT FOR THE PERIOD''],
                            result = []\<rparr>)))"

definition compute_kpis :: "(real \<Rightarrow> string) \<Rightarrow> parsed \<Rightarrow> (string \<times> kpi_value) list" where
  "compute_kpis fmt p =
     (case lookups p of
        Inl e \<Rightarrow> [(''error'', Str attribute_error_text)]
      | Inr l \<Rightarrow>
          result (summary_step fmt (scale_correction (raw_values
            (cash_flow_kpi (section_of p ''cash_flow'' (Dict [])) (ratios l))))))"

text \<open>\<open>compute_kpis\<close> with the scale-correction statement removed.\<close>

definition compute_kpis_without_correction :: "(real \<Rightarrow> string) \<Rightarrow> parsed \<Rightarrow> (string \<times> kpi_value) list" where
  "compute_kpis_without_correction fmt p =
     (case lookups p of
        Inl e \<Rightarrow> [(''error'', Str attribute_error_text)]
      | Inr l \<Rightarrow>
          result (summary_step fmt (raw_values
            (cash_flow_kpi (section_of p ''cash_flow'' (Dict [])) (ratios l)))))"

section \<open>The trend service: \<open>aggregate_periods\<close>\<close>

record comparison =
  latest :: real
  previous_value :: real
  growth_pct :: "real option"

record comparisons =
  periods :: "string list"
  metrics :: "(string \<times> comparison) list"

text \<open>\<open>comparisons\<close> is None for the empty dictionary that the result starts with.\<close>

record trend =
  timeseries :: "(string \<times> meta \<times> (string \<times> kpi_value) list) list"
  comparisons :: "comparisons option"

text \<open>\<open>meta.get("period_hint") or meta.get("company") or f"period_{n + 1}"\<close>\<close>

definition period_key :: "meta \<Rightarrow> nat \<Rightarrow> string" where
  "period_key m n =
     (let hint = (case period_hint m of Present (Some h) \<Rightarrow> h | _ \<Rightarrow> [])
      in if hint \<noteq> [] then hint
         else if company m \<noteq> [] then company m
         else ''period_'' @ str_nat (n + 1))"

definition add_period :: "(real \<Rightarrow> string) \<Rightarrow> (string \<times> meta \<times> (string \<times> kpi_value) list) list \<Rightarrow> parsed \<Rightarrow> (string \<times> meta \<times> (string \<times> kpi_value) list) list" where
  "add_period fmt ts p =
     dict_set ts (period_key (p_meta p) (length ts)) (p_meta p, compute_kpis fmt p)"

text \<open>One pass of the loop over the keys of the latest KPIs.\<close>

definition compare_metric :: "(string \<times> kpi_value) list \<Rightarrow> (string \<times> kpi_value) list \<Rightarrow> (string \<times> comparison) list \<Rightarrow> string \<Rightarrow> (string \<times> comparison) list" where
  "compare_metric latest_kpis prev_kpis cmp k =
     (case (map_of latest_kpis k, map_of prev_kpis k) of
        (Some (Num l), Some (Num p)) \<Rightarrow>
          dict_set cmp k
            \<lparr>latest = l, previous_value = p,
             growth_pct = (if p \<noteq> 0 then Some (round2 ((l - p) / \<bar>p\<bar> * 100)) else None)\<rparr>
      | _ \<Rightarrow> cmp)"

definition kpis_of :: "(string \<times> meta \<times> (string \<times> kpi_value) list) list \<Rightarrow> string \<Rightarrow> (string \<times> kpi_value) list" where
  "kpis_of ts k = (case map_of ts k of None \<Rightarrow> [] | Some mk \<Rightarrow> snd mk)"

definition aggregate_periods :: "(real \<Rightarrow> string) \<Rightarrow> parsed list \<Rightarrow> trend" where
  "aggregate_periods fmt parsed_list =
     (let ts = foldl (add_period fmt) [] parsed_list;
          sorted_periods = sort (map fst ts)
      in if 2 \<le> length sorted_periods
         then (let latest_p = sorted_periods ! (length sorted_periods - 1);
                   prev_p = sorted_periods ! (length sorted_periods - 2);
                   latest_kpis = kpis_of ts latest_p;
                   prev_kpis = kpis_of ts prev_p
               in \<lparr>timeseries = ts,
                   comparisons =
                     Some \<lparr>periods = [prev_p, latest_p],
                           metrics = foldl (compare_metric latest_kpis prev_kpis) []
                                       (map fst latest_kpis)\<rparr>\<rparr>)
         else \<lparr>timeseries = ts, comparisons = None\<rparr>)"


section \<open>The collaborators outside the source\<close>

text \<open>
  Modelled from the spec: \<open>parse_number\<close> of the preprocessing service, which is not
  among the sources. The spec: a numeric-looking token (digits, optional thousands
  separators, optional decimal point, optional surrounding parentheses denoting
  negation) gives a float, anything else null; \<open>"(1,234.5)"\<close> gives \<open>-1234.5\<close>, a
  token without a digit gives null.
\<close>

definition parse_number :: "string \<Rightarrow> real option" where
  "parse_number token =
     (let t = strip token;
          neg = (t \<noteq> [] \<and> hd t = CHR ''('' \<and> last t = CHR '')'');
          body = remove_char CHR '','' (if neg then butlast (tl t) else t)
      in map_option (\<lambda>x. if neg then - x else x) (unsigned_float body))"

text \<open>
  Modelled from the spec: \<open>detect_document_scale\<close> of the preprocessing service, which
  is not among the sources. The spec: the text is scanned for a unit declaration
  (crore, lakh, thousand); the multiplier is 1e7, 1e5 or 1e3, and \<open>(1.0, "units")\<close>
  when there is none. The order of the tests and the labels are this model's.
\<close>

definition detect_document_scale :: "string \<Rightarrow> real \<times> string" where
  "detect_document_scale text =
     (let t = lower text
      in if contains t ''crore'' then (10000000, ''crore'')
         else if contains t ''lakh'' then (100000, ''lakh'')
         else if contains t ''thousand'' then (1000, ''thousand'')
         else (1, ''units''))"

section \<open>Documents and names used in the examples\<close>

definition raw_keys :: "string list" where
  "raw_keys = [''revenue'', ''net_profit'', ''total_assets'', ''total_equity'', ''total_liabilities'']"

definition ratio_keys :: "string list" where
  "ratio_keys = [''net_profit_margin_pct'', ''debt_to_equity'', ''equity_to_assets_pct'',
                 ''asset_turnover_ratio'', ''return_on_equity_pct'']"

definition example_meta :: meta where
  "example_meta = \<lparr>company = ''Acme Limited'', unit = ''units'', period_hint = Absent\<rparr>"

text \<open>A document with profit, equity and assets zero and a revenue of 200.\<close>

definition doc_zero_profit :: parsed where
  "doc_zero_profit =
     \<lparr>p_meta = example_meta, p_scale = 1,
      p_sections =
        [(''balance_sheet'', Items [LineItem ''Total Assets'' (Some 0) None ''high'',
                                   LineItem ''Total Equity'' (Some 0) None ''high'']),
         (''pnl'', Dict [(''Revenue from operations'', KV (Some 200) None),
                        (''Profit for the period'', KV (Some 0) None)])],
      p_tables = [], p_kpis = None, p_validation_warning = None\<rparr>"

text \<open>A document with a revenue of zero.\<close>

definition doc_zero_revenue :: parsed where
  "doc_zero_revenue =
     \<lparr>p_meta = example_meta, p_scale = 1,
      p_sections =
        [(''balance_sheet'', Items [LineItem ''Total Assets'' (Some 900) None ''high'']),
         (''pnl'', Dict [(''Revenue from operations'', KV (Some 0) None),
                        (''Profit for the period'', KV (Some 50) None)])],
      p_tables = [], p_kpis = None, p_validation_warning = None\<rparr>"

text \<open>Two texts without a heading, of three balance-sheet rows each, and their rows.\<close>

definition text_balanced :: string where
  "text_balanced =
     ''Total Assets 1000'' @ [CHR 0x0A] @ ''Total Equity 600'' @ [CHR 0x0A] @
     ''Total Liabilities 400''"

definition text_mismatch :: string where
  "text_mismatch =
     ''Total Assets 1000'' @ [CHR 0x0A] @ ''Total Equity 500'' @ [CHR 0x0A] @
     ''Total Liabilities 300''"

definition rows :: "real \<Rightarrow> real \<Rightarrow> real \<Rightarrow> line_item list" where
  "rows a e l = [LineItem ''Total Assets'' (Some a) None ''high'',
                 LineItem ''Total Equity'' (Some e) None ''high'',
                 LineItem ''Total Liabilities'' (Some l) None ''high'']"

text \<open>
  A text without a heading whose equity row ends in a token that is no number, and
  the rows that the table-like extraction makes of it.
\<close>

definition text_null_equity :: string where
  "text_null_equity =
     ''Total Assets 1000'' @ [CHR 0x0A] @ ''Total Equity 1.2.3'' @ [CHR 0x0A] @
     ''Total Liabilities 1000''"

definition rows_null_equity :: "line_item list" where
  "rows_null_equity = [LineItem ''Total Assets'' (Some 1000) None ''high'',
                       LineItem ''Total Equity'' None None ''low'',
                       LineItem ''Total Liabilities'' (Some 1000) None ''high'']"

text \<open>A narrative text without any statement heading, and the keys of the sections.\<close>

definition narrative :: string where
  "narrative = ''We thank our employees for their dedication.''"

definition section_keys :: "string list" where
  "section_keys = [''balance_sheet'', ''pnl'', ''cash_flow'', ''changes_in_equity'']"

text \<open>
  A text in crore without a heading: its one line names a CFO, so the table-like
  extraction skips it, and both document-wide fallbacks find a number.
\<close>

definition text_crore :: string where
  "text_crore = ''CFO note, Rs crore: Total Assets 5,000 Revenue 2,000''"

section \<open>Properties\<close>

subsection \<open>Fiscal-year label\<close>

lemma mod100_shift: "0 \<le> k \<Longrightarrow> k < 100 \<Longrightarrow> (k + 2000) mod 100 = (k::int)"
proof -
  assume a: "0 \<le> k" "k < 100"
  have "(k + 2000) mod 100 = (k + 20 * 100) mod 100" by simp
  also have "\<dots> = k mod 100" by (rule mod_mult_self1)
  also have "\<dots> = k" using a by (rule mod_pos_pos_trivial)
  finally show ?thesis .
qed

text \<open>
  Claim C6, as stated, fails: for the year 2099, which the pattern \<open>20\d{2}\<close> matches,
  the March branch \<open>(year + 1) % 100\<close> gives 0 and the branch of the other months
  \<open>year % 100 + 1\<close> gives 100, so the labels are \<open>FY0\<close> and \<open>FY100\<close>.
\<close>

theorem fy_branches_differ_2099:
  "detect_period_hint ''As at March 31, 2099'' = Some ''Q4 FY0'' \<and>
   detect_period_hint ''As at June 30, 2099'' = Some ''Q1 FY100'' \<and>
   fy_number ''march'' 2099 \<noteq> fy_number ''june'' 2099"
  by code_simp

text \<open>
  Claim C6, amended: for every year from 2000 to 2098 the March branch and the branch
  of the other months compute the same fiscal-year number, \<open>year - 1999\<close>.
\<close>

theorem fy_branches_agree_until_2098:
  "2000 \<le> year \<Longrightarrow> year \<le> 2098 \<Longrightarrow>
   fy_number ''march'' year = fy_number month year \<and> fy_number month year = year - 1999"
proof -
  assume a: "2000 \<le> year" "year \<le> 2098"
  have 1: "(year + 1) mod 100 = year - 1999"
    using mod100_shift[of "year - 1999"] a by (simp add: algebra_simps)
  have 2: "year mod 100 = year - 2000"
    using mod100_shift[of "year - 2000"] a by (simp add: algebra_simps)
  show ?thesis unfolding fy_number_def 1 2 by simp
qed

theorem fy_branches_agree_2024:
  "fy_number ''march'' 2024 = fy_number ''june'' 2024 \<and> fy_number ''june'' 2024 = 25"
  using fy_branches_agree_until_2098[of 2024 "''june''"] by simp

subsection \<open>The scale correction of \<open>compute_kpis\<close>\<close>

lemma result_scale_correction: "result (scale_correction l) = result l"
  by (simp add: scale_correction_def)

lemma summary_step_result:
  "result a = result b \<Longrightarrow> result (summary_step fmt a) = result (summary_step fmt b)"
  by (simp add: summary_step_def)

text \<open>
  Claim C7: \<open>compute_kpis\<close> returns the same dictionary with and without the
  scale-correction statement; the statement assigns the locals \<open>revenue\<close> and
  \<open>net_profit\<close>, and nothing after it reads them.
\<close>

theorem scale_correction_no_effect:
  "compute_kpis fmt p = compute_kpis_without_correction fmt p"
proof (cases "lookups p")
  case (Inl e)
  then show ?thesis by (simp add: compute_kpis_def compute_kpis_without_correction_def)
next
  case (Inr l)
  have "result (summary_step fmt (scale_correction x)) = result (summary_step fmt x)" for x
    by (rule summary_step_result) (rule result_scale_correction)
  with Inr show ?thesis by (simp add: compute_kpis_def compute_kpis_without_correction_def)
qed

subsection \<open>Errors of \<open>parse_financial_document\<close>\<close>

text \<open>
  Claim C3: \<open>parse_financial_document\<close> raises exactly when \<open>cleaned_text\<close> is empty,
  and what it raises then is the HTTP exception with status 400.
\<close>

theorem parse_raises_iff_empty:
  "(\<exists>e. parse_financial_document g pn dds cleaned_text tbls = Inl e) = (cleaned_text = []) \<and>
   parse_financial_document g pn dds [] tbls = Inl (HTTPException 400 ''Empty cleaned_text'')"
  by (simp add: parse_financial_document_def Let_def)

subsection \<open>Zero inputs of \<open>compute_kpis\<close>\<close>

lemma map_of_dict_set: "map_of (dict_set d k v) k' = (if k' = k then Some v else map_of d k')"
  by (induction d) auto

lemma map_of_ratio: "map_of (ratio a b k v res) k' = (if k' = k \<and> truthy a \<and> truthy b then Some (Num (round2 v)) else map_of res k')"
  by (simp add: ratio_def map_of_dict_set)

lemma map_of_raw_value: "map_of (raw_value v k res) k' = (if k' = k \<and> v \<noteq> None then Some (Num (num v)) else map_of res k')"
  by (cases v) (simp_all add: raw_value_def map_of_dict_set num_def)

lemma result_summary_step: "k \<noteq> ''summary'' \<Longrightarrow> map_of (result (summary_step fmt l)) k = map_of (result l) k"
  by (simp add: summary_step_def map_of_dict_set)

lemma result_cash_flow_kpi: "k \<noteq> ''free_cash_flow'' \<Longrightarrow> map_of (result (cash_flow_kpi cf l)) k = map_of (result l) k"
  by (simp add: cash_flow_kpi_def map_of_dict_set split: option.splits prod.splits)

lemma fields_cash_flow_kpi: "total_assets (cash_flow_kpi cf l) = total_assets l" "total_equity (cash_flow_kpi cf l) = total_equity l"
  "total_liabilities (cash_flow_kpi cf l) = total_liabilities l" "revenue (cash_flow_kpi cf l) = revenue l" "net_profit (cash_flow_kpi cf l) = net_profit l"
  by (simp_all add: cash_flow_kpi_def split: option.splits prod.splits)

lemma fields_ratios: "total_assets (ratios l) = total_assets l" "total_equity (ratios l) = total_equity l"
  "total_liabilities (ratios l) = total_liabilities l" "revenue (ratios l) = revenue l" "net_profit (ratios l) = net_profit l"
  by (simp_all add: ratios_def)

lemma lookups_result: "lookups p = Inr l \<Longrightarrow> result l = []"
  by (auto simp add: lookups_def Let_def split: sum.splits)

lemma raw_values_other: "k \<notin> set raw_keys \<Longrightarrow> map_of (result (raw_values l)) k = map_of (result l) k"
  by (simp add: raw_values_def raw_keys_def map_of_raw_value)

lemma raw_values_key:
  "map_of (result (raw_values l)) ''revenue'' = (case revenue l of Some x \<Rightarrow> Some (Num x) | None \<Rightarrow> map_of (result l) ''revenue'')"
  "map_of (result (raw_values l)) ''net_profit'' = (case net_profit l of Some x \<Rightarrow> Some (Num x) | None \<Rightarrow> map_of (result l) ''net_profit'')"
  "map_of (result (raw_values l)) ''total_assets'' = (case total_assets l of Some x \<Rightarrow> Some (Num x) | None \<Rightarrow> map_of (result l) ''total_assets'')"
  "map_of (result (raw_values l)) ''total_equity'' = (case total_equity l of Some x \<Rightarrow> Some (Num x) | None \<Rightarrow> map_of (result l) ''total_equity'')"
  "map_of (result (raw_values l)) ''total_liabilities'' = (case total_liabilities l of Some x \<Rightarrow> Some (Num x) | None \<Rightarrow> map_of (result l) ''total_liabilities'')"
  by (simp_all add: raw_values_def map_of_raw_value num_def split: option.splits)

lemma ratios_key:
  "map_of (result (ratios l)) ''net_profit_margin_pct'' =
     (if truthy (revenue l) \<and> truthy (net_profit l)
      then Some (Num (round2 (num (net_profit l) / num (revenue l) * 100)))
      else map_of (result l) ''net_profit_margin_pct'')"
  "map_of (result (ratios l)) ''debt_to_equity'' =
     (if truthy (total_equity l) \<and> truthy (total_liabilities l)
      then Some (Num (round2 (num (total_liabilities l) / num (total_equity l))))
      else map_of (result l) ''debt_to_equity'')"
  "map_of (result (ratios l)) ''equity_to_assets_pct'' =
     (if truthy (total_assets l) \<and> truthy (total_equity l)
      then Some (Num (round2 (num (total_equity l) / num (total_assets l) * 100)))
      else map_of (result l) ''equity_to_assets_pct'')"
  "map_of (result (ratios l)) ''asset_turnover_ratio'' =
     (if truthy (total_assets l) \<and> truthy (revenue l)
      then Some (Num (round2 (num (revenue l) / num (total_assets l))))
      else map_of (result l) ''asset_turnover_ratio'')"
  "map_of (result (ratios l)) ''return_on_equity_pct'' =
     (if truthy (total_equity l) \<and> truthy (net_profit l)
      then Some (Num (round2 (num (net_profit l) / num (total_equity l) * 100)))
      else map_of (result l) ''return_on_equity_pct'')"
  by (simp_all add: ratios_def map_of_ratio)

lemma compute_kpis_raw:
  assumes "lookups p = Inr l" and "k \<in> set raw_keys"
  shows "map_of (compute_kpis fmt p) k =
     map_of (result (raw_values (cash_flow_kpi (section_of p ''cash_flow'' (Dict [])) (ratios l)))) k"
proof -
  have "k \<noteq> ''summary''" using assms(2) by (auto simp add: raw_keys_def)
  then show ?thesis using assms(1) by (simp add: compute_kpis_def result_summary_step result_scale_correction)
qed

lemma compute_kpis_ratio:
  assumes "lookups p = Inr l" and "k \<in> set ratio_keys"
  shows "map_of (compute_kpis fmt p) k = map_of (result (ratios l)) k"
proof -
  have k: "k \<noteq> ''summary''" "k \<noteq> ''free_cash_flow''" "k \<notin> set raw_keys"
    using assms(2) by (auto simp add: ratio_keys_def raw_keys_def)
  have "map_of (compute_kpis fmt p) k =
     map_of (result (raw_values (cash_flow_kpi (section_of p ''cash_flow'' (Dict [])) (ratios l)))) k"
    using k(1) assms(1) by (simp add: compute_kpis_def result_summary_step result_scale_correction)
  also have "\<dots> = map_of (result (cash_flow_kpi (section_of p ''cash_flow'' (Dict [])) (ratios l))) k"
    using k(3) by (rule raw_values_other)
  also have "\<dots> = map_of (result (ratios l)) k"
    using k(2) by (rule result_cash_flow_kpi)
  finally show ?thesis .
qed

lemma compute_kpis_raw_value:
  assumes "lookups p = Inr l"
  shows "revenue l = Some x \<Longrightarrow> map_of (compute_kpis fmt p) ''revenue'' = Some (Num x)"
    and "net_profit l = Some x \<Longrightarrow> map_of (compute_kpis fmt p) ''net_profit'' = Some (Num x)"
    and "total_assets l = Some x \<Longrightarrow> map_of (compute_kpis fmt p) ''total_assets'' = Some (Num x)"
    and "total_equity l = Some x \<Longrightarrow> map_of (compute_kpis fmt p) ''total_equity'' = Some (Num x)"
  by (simp_all add: compute_kpis_raw[OF assms] raw_keys_def raw_values_key fields_cash_flow_kpi fields_ratios)

lemma compute_kpis_no_ratio:
  assumes "lookups p = Inr l"
  shows "\<not> truthy (revenue l) \<or> \<not> truthy (net_profit l) \<Longrightarrow> map_of (compute_kpis fmt p) ''net_profit_margin_pct'' = None"
    and "\<not> truthy (total_equity l) \<or> \<not> truthy (total_liabilities l) \<Longrightarrow> map_of (compute_kpis fmt p) ''debt_to_equity'' = None"
    and "\<not> truthy (total_assets l) \<or> \<not> truthy (total_equity l) \<Longrightarrow> map_of (compute_kpis fmt p) ''equity_to_assets_pct'' = None"
    and "\<not> truthy (total_assets l) \<or> \<not> truthy (revenue l) \<Longrightarrow> map_of (compute_kpis fmt p) ''asset_turnover_ratio'' = None"
    and "\<not> truthy (total_equity l) \<or> \<not> truthy (net_profit l) \<Longrightarrow> map_of (compute_kpis fmt p) ''return_on_equity_pct'' = None"
  using lookups_result[OF assms]
  by (auto simp add: compute_kpis_ratio[OF assms] ratio_keys_def ratios_key)

text \<open>
  Claim C10: a ratio is computed only when both of its inputs are true values, so an
  input of zero suppresses every ratio that depends on it, while the raw zero is still
  emitted: for \<open>net_profit\<close>, \<open>revenue\<close>, \<open>total_equity\<close> and \<open>total_assets\<close>.
\<close>

theorem zero_suppresses_ratios:
  assumes "lookups p = Inr l"
  shows "(net_profit l = Some 0 \<longrightarrow>
            map_of (compute_kpis fmt p) ''net_profit'' = Some (Num 0) \<and>
            map_of (compute_kpis fmt p) ''net_profit_margin_pct'' = None \<and>
            map_of (compute_kpis fmt p) ''return_on_equity_pct'' = None) \<and>
         (revenue l = Some 0 \<longrightarrow>
            map_of (compute_kpis fmt p) ''revenue'' = Some (Num 0) \<and>
            map_of (compute_kpis fmt p) ''net_profit_margin_pct'' = None \<and>
            map_of (compute_kpis fmt p) ''asset_turnover_ratio'' = None) \<and>
         (total_equity l = Some 0 \<longrightarrow>
            map_of (compute_kpis fmt p) ''total_equity'' = Some (Num 0) \<and>
            map_of (compute_kpis fmt p) ''debt_to_equity'' = None \<and>
            map_of (compute_kpis fmt p) ''equity_to_assets_pct'' = None \<and>
            map_of (compute_kpis fmt p) ''return_on_equity_pct'' = None) \<and>
         (total_assets l = Some 0 \<longrightarrow>
            map_of (compute_kpis fmt p) ''total_assets'' = Some (Num 0) \<and>
            map_of (compute_kpis fmt p) ''equity_to_assets_pct'' = None \<and>
            map_of (compute_kpis fmt p) ''asset_turnover_ratio'' = None)"
proof -
  have z: "\<not> truthy (Some 0)" by (simp add: truthy_def)
  show ?thesis
    using compute_kpis_raw_value[OF assms, of 0 fmt] compute_kpis_no_ratio[OF assms, of fmt] z
    by auto
qed

theorem zero_suppresses_ratios_examples:
  "map_of (compute_kpis (\<lambda>x. []) doc_zero_profit) ''net_profit'' = Some (Num 0) \<and>
   map_of (compute_kpis (\<lambda>x. []) doc_zero_profit) ''net_profit_margin_pct'' = None \<and>
   map_of (compute_kpis (\<lambda>x. []) doc_zero_profit) ''return_on_equity_pct'' = None \<and>
   map_of (compute_kpis (\<lambda>x. []) doc_zero_profit) ''total_equity'' = Some (Num 0) \<and>
   map_of (compute_kpis (\<lambda>x. []) doc_zero_profit) ''debt_to_equity'' = None \<and>
   map_of (compute_kpis (\<lambda>x. []) doc_zero_profit) ''total_assets'' = Some (Num 0) \<and>
   map_of (compute_kpis (\<lambda>x. []) doc_zero_profit) ''equity_to_assets_pct'' = None \<and>
   map_of (compute_kpis (\<lambda>x. []) doc_zero_revenue) ''revenue'' = Some (Num 0) \<and>
   map_of (compute_kpis (\<lambda>x. []) doc_zero_revenue) ''asset_turnover_ratio'' = None"
proof -
  have "case lookups doc_zero_profit of Inl e \<Rightarrow> False
        | Inr l \<Rightarrow> net_profit l = Some 0 \<and> total_equity l = Some 0 \<and> total_assets l = Some 0"
    by code_simp
  then obtain la where a: "lookups doc_zero_profit = Inr la" "net_profit la = Some 0" "total_equity la = Some 0"
      "total_assets la = Some 0"
    by (cases "lookups doc_zero_profit") auto
  have "case lookups doc_zero_revenue of Inl e \<Rightarrow> False | Inr l \<Rightarrow> revenue l = Some 0"
    by code_simp
  then obtain lb where b: "lookups doc_zero_revenue = Inr lb" "revenue lb = Some 0"
    by (cases "lookups doc_zero_revenue") auto
  show ?thesis
    using zero_suppresses_ratios[OF a(1), of "\<lambda>x. []"] zero_suppresses_ratios[OF b(1), of "\<lambda>x. []"] a b by simp
qed

subsection \<open>The steps of \<open>parse_financial_document\<close> and the balance validation\<close>

lemma parse_full:
  "cleaned_text \<noteq> [] \<Longrightarrow>
   section_present (split_into_sections cleaned_text) ''balance_sheet'' \<or>
   section_present (split_into_sections cleaned_text) ''pnl'' \<Longrightarrow>
   parse_financial_document g pn dds cleaned_text tbls =
     Inr (attach_validation
       \<lparr>p_meta = extract_meta cleaned_text (snd (dds cleaned_text)),
        p_scale = fst (dds cleaned_text),
        p_sections = build_sections g pn cleaned_text (split_into_sections cleaned_text) (fst (dds cleaned_text)),
        p_tables = tbls, p_kpis = None, p_validation_warning = None\<rparr>)"
  by (auto simp add: parse_financial_document_def Let_def)

lemma parse_minimal:
  "cleaned_text \<noteq> [] \<Longrightarrow>
   \<not> section_present (split_into_sections cleaned_text) ''balance_sheet'' \<Longrightarrow>
   \<not> section_present (split_into_sections cleaned_text) ''pnl'' \<Longrightarrow>
   parse_financial_document g pn dds cleaned_text tbls = Inr (minimal_document cleaned_text tbls)"
  by (simp add: parse_financial_document_def Let_def)

lemma sections_attach_validation: "p_sections (attach_validation p) = p_sections p"
  by (simp add: attach_validation_def split: sum.splits)

lemma balance_sheet_of_attach_validation: "balance_sheet_of (attach_validation p) = balance_sheet_of p"
  by (simp add: balance_sheet_of_def sections_attach_validation)

lemma warning_attach_validation:
  "p_validation_warning p = None \<Longrightarrow>
   p_validation_warning (attach_validation p) =
     (case validate_basic_balance p of Inl e \<Rightarrow> Some e | Inr u \<Rightarrow> None)"
  by (simp add: attach_validation_def split: sum.splits)

lemma validate_numeric:
  assumes "balance_sheet_of p = Items bs"
    and "find_item bs ''TOTAL ASSETS'' = Some ta" and "current_period ta = Some assets"
    and "find_item bs ''TOTAL EQUITY'' \<noteq> None \<or> find_item bs ''TOTAL LIABILITIES'' \<noteq> None"
    and "rhs_side (find_item bs ''TOTAL EQUITY'') = Some equity"
    and "rhs_side (find_item bs ''TOTAL LIABILITIES'') = Some liabilities"
  shows "validate_basic_balance p =
           (if max 1 (0.001 * \<bar>assets\<bar>) < \<bar>assets - (equity + liabilities)\<bar>
            then Inl (ValueError_balance_mismatch assets (equity + liabilities)) else Inr ())"
  using assms by (auto simp add: validate_basic_balance_def Let_def)

lemma balance_sheet_of_minimal: "balance_sheet_of (minimal_document t tbls) = Items []"
  by (simp add: balance_sheet_of_def minimal_document_def)

text \<open>
  A row that was found with no current value makes the addition raise, and the
  \<open>TypeError\<close> becomes the warning.
\<close>

lemma validate_none_side:
  assumes "balance_sheet_of p = Items bs" and "find_item bs ''TOTAL ASSETS'' = Some ta"
    and "find_item bs ''TOTAL EQUITY'' = Some te" and "current_period te = None"
  shows "validate_basic_balance p = Inl TypeError"
  using assms by (simp add: validate_basic_balance_def Let_def rhs_side_def split: option.splits)

text \<open>
  Rows with numbers: parsing a non-empty text never fails, and when the balance-sheet
  list of the output has a \<open>TOTAL ASSETS\<close> row and at least one of the
  \<open>TOTAL EQUITY\<close> and \<open>TOTAL LIABILITIES\<close> rows (the first row whose upper-cased label
  contains the words), each of the rows found with a number as current value and a row
  that is not found counted as zero, the warning of the output is the balance mismatch
  when the difference exceeds the tolerance, and there is none otherwise. The numbers
  are reals here: the sum, the difference and the product are exact.
\<close>

theorem balance_warning_iff_mismatch:
  assumes "cleaned_text \<noteq> []"
  shows "\<exists>doc. parse_financial_document g pn dds cleaned_text tbls = Inr doc \<and>
          (\<forall>bs ta assets equity liabilities.
             balance_sheet_of doc = Items bs \<longrightarrow>
             find_item bs ''TOTAL ASSETS'' = Some ta \<longrightarrow>
             current_period ta = Some assets \<longrightarrow>
             find_item bs ''TOTAL EQUITY'' \<noteq> None \<or> find_item bs ''TOTAL LIABILITIES'' \<noteq> None \<longrightarrow>
             rhs_side (find_item bs ''TOTAL EQUITY'') = Some equity \<longrightarrow>
             rhs_side (find_item bs ''TOTAL LIABILITIES'') = Some liabilities \<longrightarrow>
             p_validation_warning doc =
               (if max 1 (0.001 * \<bar>assets\<bar>) < \<bar>assets - (equity + liabilities)\<bar>
                then Some (ValueError_balance_mismatch assets (equity + liabilities))
                else None))"
proof (cases "section_present (split_into_sections cleaned_text) ''balance_sheet'' \<or>
              section_present (split_into_sections cleaned_text) ''pnl''")
  case False
  then have "parse_financial_document g pn dds cleaned_text tbls = Inr (minimal_document cleaned_text tbls)"
    using assms by (simp add: parse_minimal)
  moreover have "find_item [] k = None" for k by (simp add: find_item_def)
  ultimately show ?thesis by (auto simp add: balance_sheet_of_minimal)
next
  case True
  let ?p = "\<lparr>p_meta = extract_meta cleaned_text (snd (dds cleaned_text)),
        p_scale = fst (dds cleaned_text),
        p_sections = build_sections g pn cleaned_text (split_into_sections cleaned_text) (fst (dds cleaned_text)),
        p_tables = tbls, p_kpis = None, p_validation_warning = None\<rparr>"
  have p: "parse_financial_document g pn dds cleaned_text tbls = Inr (attach_validation ?p)"
    using assms True by (rule parse_full)
  have w: "p_validation_warning (attach_validation ?p) =
     (case validate_basic_balance ?p of Inl e \<Rightarrow> Some e | Inr u \<Rightarrow> None)"
    by (rule warning_attach_validation) simp
  show ?thesis
  proof (intro exI conjI allI impI)
    show "parse_financial_document g pn dds cleaned_text tbls = Inr (attach_validation ?p)" by (rule p)
  next
    fix bs ta assets equity liabilities
    assume h: "balance_sheet_of (attach_validation ?p) = Items bs"
      "find_item bs ''TOTAL ASSETS'' = Some ta" "current_period ta = Some assets"
      "find_item bs ''TOTAL EQUITY'' \<noteq> None \<or> find_item bs ''TOTAL LIABILITIES'' \<noteq> None"
      "rhs_side (find_item bs ''TOTAL EQUITY'') = Some equity"
      "rhs_side (find_item bs ''TOTAL LIABILITIES'') = Some liabilities"
    from h(1) have b: "balance_sheet_of ?p = Items bs" by (simp only: balance_sheet_of_attach_validation)
    show "p_validation_warning (attach_validation ?p) =
               (if max 1 (0.001 * \<bar>assets\<bar>) < \<bar>assets - (equity + liabilities)\<bar>
                then Some (ValueError_balance_mismatch assets (equity + liabilities))
                else None)"
      unfolding w validate_numeric[OF b h(2-6)] by simp
  qed
qed


lemma find_rows:
  "find_item (rows a e l) ''TOTAL ASSETS'' = Some (LineItem ''Total Assets'' (Some a) None ''high'')"
  "find_item (rows a e l) ''TOTAL EQUITY'' = Some (LineItem ''Total Equity'' (Some e) None ''high'')"
  "find_item (rows a e l) ''TOTAL LIABILITIES'' = Some (LineItem ''Total Liabilities'' (Some l) None ''high'')"
proof -
  have u: "upper ''Total Assets'' = ''TOTAL ASSETS''" "upper ''Total Equity'' = ''TOTAL EQUITY''"
    "upper ''Total Liabilities'' = ''TOTAL LIABILITIES''"
    by code_simp+
  show "find_item (rows a e l) ''TOTAL ASSETS'' = Some (LineItem ''Total Assets'' (Some a) None ''high'')"
    "find_item (rows a e l) ''TOTAL EQUITY'' = Some (LineItem ''Total Equity'' (Some e) None ''high'')"
    "find_item (rows a e l) ''TOTAL LIABILITIES'' = Some (LineItem ''Total Liabilities'' (Some l) None ''high'')"
    by (simp_all add: find_item_def rows_def u)
qed

lemma sections_of_parse:
  assumes "cleaned_text \<noteq> []"
    and "section_present (split_into_sections cleaned_text) ''balance_sheet'' \<or>
         section_present (split_into_sections cleaned_text) ''pnl''"
    and "parse_financial_document g pn dds cleaned_text tbls = Inr doc"
  shows "p_sections doc =
     build_sections g pn cleaned_text (split_into_sections cleaned_text) (fst (dds cleaned_text))"
  using parse_full[OF assms(1,2), of g pn dds tbls] assms(3)
  by (auto simp add: sections_attach_validation)

text \<open>
  Assets 1000, equity 600, liabilities 400 give no warning; assets 1000, equity 500,
  liabilities 300 give the warning.
\<close>

theorem balance_warning_examples:
  "p_validation_warning (projr (parse_financial_document module_globals parse_number
      detect_document_scale text_balanced [])) = None \<and>
   p_validation_warning (projr (parse_financial_document module_globals parse_number
      detect_document_scale text_mismatch [])) = Some (ValueError_balance_mismatch 1000 800)"
proof -
  have ne: "text_balanced \<noteq> []" "text_mismatch \<noteq> []"
    by (simp_all add: text_balanced_def text_mismatch_def)
  have sp: "section_present (split_into_sections text_balanced) ''balance_sheet''"
    "section_present (split_into_sections text_mismatch) ''balance_sheet''"
    by code_simp+
  have sc: "fst (detect_document_scale text_balanced) = 1" "fst (detect_document_scale text_mismatch) = 1"
    by code_simp+
  have b1: "map_of (build_sections module_globals parse_number text_balanced
                (split_into_sections text_balanced) 1) ''balance_sheet'' = Some (Items (rows 1000 600 400))"
    by code_simp
  have b2: "map_of (build_sections module_globals parse_number text_mismatch
                (split_into_sections text_mismatch) 1) ''balance_sheet'' = Some (Items (rows 1000 500 300))"
    by code_simp
  obtain d1 where d1: "parse_financial_document module_globals parse_number detect_document_scale
        text_balanced [] = Inr d1"
    and h1: "\<And>bs ta assets equity liabilities.
      balance_sheet_of d1 = Items bs \<Longrightarrow> find_item bs ''TOTAL ASSETS'' = Some ta \<Longrightarrow>
      current_period ta = Some assets \<Longrightarrow>
      find_item bs ''TOTAL EQUITY'' \<noteq> None \<or> find_item bs ''TOTAL LIABILITIES'' \<noteq> None \<Longrightarrow>
      rhs_side (find_item bs ''TOTAL EQUITY'') = Some equity \<Longrightarrow>
      rhs_side (find_item bs ''TOTAL LIABILITIES'') = Some liabilities \<Longrightarrow>
      p_validation_warning d1 =
        (if max 1 (0.001 * \<bar>assets\<bar>) < \<bar>assets - (equity + liabilities)\<bar>
         then Some (ValueError_balance_mismatch assets (equity + liabilities)) else None)"
    using balance_warning_iff_mismatch[OF ne(1), of module_globals parse_number detect_document_scale "[]"] by blast
  obtain d2 where d2: "parse_financial_document module_globals parse_number detect_document_scale
        text_mismatch [] = Inr d2"
    and h2: "\<And>bs ta assets equity liabilities.
      balance_sheet_of d2 = Items bs \<Longrightarrow> find_item bs ''TOTAL ASSETS'' = Some ta \<Longrightarrow>
      current_period ta = Some assets \<Longrightarrow>
      find_item bs ''TOTAL EQUITY'' \<noteq> None \<or> find_item bs ''TOTAL LIABILITIES'' \<noteq> None \<Longrightarrow>
      rhs_side (find_item bs ''TOTAL EQUITY'') = Some equity \<Longrightarrow>
      rhs_side (find_item bs ''TOTAL LIABILITIES'') = Some liabilities \<Longrightarrow>
      p_validation_warning d2 =
        (if max 1 (0.001 * \<bar>assets\<bar>) < \<bar>assets - (equity + liabilities)\<bar>
         then Some (ValueError_balance_mismatch assets (equity + liabilities)) else None)"
    using balance_warning_iff_mismatch[OF ne(2), of module_globals parse_number detect_document_scale "[]"] by blast
  have s1: "balance_sheet_of d1 = Items (rows 1000 600 400)"
    using sections_of_parse[OF ne(1) disjI1[OF sp(1)] d1] b1 sc(1) by (simp add: balance_sheet_of_def)
  have s2: "balance_sheet_of d2 = Items (rows 1000 500 300)"
    using sections_of_parse[OF ne(2) disjI1[OF sp(2)] d2] b2 sc(2) by (simp add: balance_sheet_of_def)
  have w1: "p_validation_warning d1 = None"
    using h1[OF s1 find_rows(1), of 1000 600 400] by (simp add: find_rows rhs_side_def)
  have w2: "p_validation_warning d2 = Some (ValueError_balance_mismatch 1000 800)"
    using h2[OF s2 find_rows(1), of 1000 500 300] by (simp add: find_rows rhs_side_def)
  show ?thesis using d1 d2 w1 w2 by simp
qed

text \<open>
  Claim C4, at a row that was found without a value. The text \<open>text_null_equity\<close> has
  the three rows; the token \<open>1.2.3\<close> of the equity row is no number, so the row is stored
  with \<open>current_period\<close> null. Assets are 1000 and liabilities are 1000: with the equity
  counted as zero the two sides are equal and the claim has no warning. The code adds
  the null to a number: \<open>total_eq.get("current_period", 0)\<close> gives the default only for a
  key that is absent, and the key is present. The \<open>TypeError\<close> of the addition is caught
  by \<open>parse_financial_document\<close> and becomes the validation warning of the output.
\<close>

theorem null_equity_row_gives_type_error_warning:
  "(case parse_financial_document module_globals parse_number detect_document_scale
          text_null_equity [] of
      Inl e \<Rightarrow> False
    | Inr doc \<Rightarrow>
        balance_sheet_of doc = Items rows_null_equity \<and>
        find_item rows_null_equity ''TOTAL ASSETS'' = Some (LineItem ''Total Assets'' (Some 1000) None ''high'') \<and>
        find_item rows_null_equity ''TOTAL EQUITY'' = Some (LineItem ''Total Equity'' None None ''low'') \<and>
        find_item rows_null_equity ''TOTAL LIABILITIES'' = Some (LineItem ''Total Liabilities'' (Some 1000) None ''high'') \<and>
        \<not> max 1 (0.001 * \<bar>1000\<bar>) < \<bar>1000 - (0 + 1000 :: real)\<bar> \<and>
        p_validation_warning doc = Some TypeError)"
  by code_simp

subsection \<open>The short circuit\<close>

lemma keys_dict_set: "k \<in> set (map fst d) \<Longrightarrow> map fst (dict_set d k v) = map fst d"
  by (induction d) force+

lemma keys_balance_fallback:
  "map fst secs = section_keys \<Longrightarrow> map fst (balance_fallback t secs) = section_keys"
  by (simp add: balance_fallback_def Let_def keys_dict_set section_keys_def)

lemma keys_build_sections: "map fst (build_sections g pn t secs scale) = section_keys"
  unfolding build_sections_def Let_def
  by (rule keys_balance_fallback) (simp add: section_keys_def)

lemma no_heading_present:
  "cleaned_text \<noteq> [] \<Longrightarrow> detect_positions cleaned_text = [] \<Longrightarrow>
   section_present (split_into_sections cleaned_text) ''balance_sheet''"
  by (simp add: split_into_sections_def section_present_def)

text \<open>
  Claim C1, as stated, fails: for a text without any heading the splitter returns the
  whole text as the \<open>balance_sheet\<close> block, so the short circuit is not taken; the
  output has the four section keys and no \<open>kpis\<close> summary.
\<close>

theorem narrative_text_not_short_circuited:
  "detect_positions narrative = [] \<and>
   map fst (p_sections (projr (parse_financial_document module_globals parse_number
      detect_document_scale narrative []))) = [''balance_sheet'', ''pnl'', ''cash_flow'', ''changes_in_equity''] \<and>
   p_kpis (projr (parse_financial_document module_globals parse_number
      detect_document_scale narrative [])) = None"
  by code_simp

text \<open>
  Claim C1, amended: \<open>parse_financial_document\<close> returns the document with empty
  sections and the fixed summary when the result of the splitter has neither a
  \<open>balance_sheet\<close> nor a \<open>pnl\<close> block; for a text without any heading the full
  pipeline runs, and the output has the four section keys and no \<open>kpis\<close> field.
\<close>

theorem short_circuit_without_blocks:
  assumes "cleaned_text \<noteq> []"
  shows "(\<not> section_present (split_into_sections cleaned_text) ''balance_sheet'' \<and>
          \<not> section_present (split_into_sections cleaned_text) ''pnl'' \<longrightarrow>
          (\<exists>doc. parse_financial_document g pn dds cleaned_text tbls = Inr doc \<and>
                 p_sections doc = [] \<and>
                 p_kpis doc = Some [(''summary'', no_statements_summary)])) \<and>
         (detect_positions cleaned_text = [] \<longrightarrow>
          (\<exists>doc. parse_financial_document g pn dds cleaned_text tbls = Inr doc \<and>
                 map fst (p_sections doc) = [''balance_sheet'', ''pnl'', ''cash_flow'', ''changes_in_equity''] \<and>
                 p_kpis doc = None))"
proof (intro conjI impI)
  assume "\<not> section_present (split_into_sections cleaned_text) ''balance_sheet'' \<and>
          \<not> section_present (split_into_sections cleaned_text) ''pnl''"
  then have "parse_financial_document g pn dds cleaned_text tbls = Inr (minimal_document cleaned_text tbls)"
    using assms by (simp add: parse_financial_document_def Let_def)
  then show "\<exists>doc. parse_financial_document g pn dds cleaned_text tbls = Inr doc \<and>
                 p_sections doc = [] \<and> p_kpis doc = Some [(''summary'', no_statements_summary)]"
    by (simp add: minimal_document_def)
next
  assume "detect_positions cleaned_text = []"
  then have "section_present (split_into_sections cleaned_text) ''balance_sheet''"
    using assms by (simp add: no_heading_present)
  then have "parse_financial_document g pn dds cleaned_text tbls =
     Inr (attach_validation
       \<lparr>p_meta = extract_meta cleaned_text (snd (dds cleaned_text)),
        p_scale = fst (dds cleaned_text),
        p_sections = build_sections g pn cleaned_text (split_into_sections cleaned_text) (fst (dds cleaned_text)),
        p_tables = tbls, p_kpis = None, p_validation_warning = None\<rparr>)"
    using assms by (simp add: parse_financial_document_def Let_def)
  then show "\<exists>doc. parse_financial_document g pn dds cleaned_text tbls = Inr doc \<and>
                 map fst (p_sections doc) = [''balance_sheet'', ''pnl'', ''cash_flow'', ''changes_in_equity''] \<and>
                 p_kpis doc = None"
    using keys_build_sections[of g pn cleaned_text "split_into_sections cleaned_text" "fst (dds cleaned_text)"]
    by (simp add: attach_validation_def section_keys_def split: sum.splits)
qed

theorem short_circuit_examples:
  "p_sections (projr (parse_financial_document module_globals parse_number detect_document_scale
      ''cash flow'' [])) = [] \<and>
   p_kpis (projr (parse_financial_document module_globals parse_number detect_document_scale
      ''cash flow'' [])) = Some [(''summary'', no_statements_summary)] \<and>
   map fst (p_sections (projr (parse_financial_document module_globals parse_number
      detect_document_scale ''Dear shareholders'' []))) = [''balance_sheet'', ''pnl'', ''cash_flow'', ''changes_in_equity'']"
proof -
  have a: "\<not> section_present (split_into_sections ''cash flow'') ''balance_sheet'' \<and>
           \<not> section_present (split_into_sections ''cash flow'') ''pnl''"
    by code_simp
  have b: "detect_positions ''Dear shareholders'' = []"
    by code_simp
  show ?thesis
    using short_circuit_without_blocks[of "''cash flow''" module_globals parse_number detect_document_scale "[]"]
      short_circuit_without_blocks[of "''Dear shareholders''" module_globals parse_number detect_document_scale "[]"]
      a b
    by auto
qed

subsection \<open>The scale of the values that the fallbacks store\<close>

text \<open>
  Claim C2, at a document whose balance sheet the fallback fills. The scale of
  \<open>text_crore\<close> is \<open>1e7\<close>. The table-like extraction finds no row, the key-value
  extraction no \<open>pnl\<close> entry. The P&L fallback stores the revenue token \<open>2,000\<close>
  multiplied by the scale. \<open>_extract_from_text\<close> has no scale parameter: it stores the
  assets token \<open>5,000\<close> as \<open>5000.0\<close>, not as \<open>5000.0\<close> times the scale, in the same
  document.
\<close>

theorem fallback_balance_sheet_value_not_scaled:
  "(case parse_financial_document module_globals parse_number detect_document_scale
          text_crore [] of
      Inl e \<Rightarrow> False
    | Inr doc \<Rightarrow>
        p_scale doc = 10000000 \<and>
        map_of (p_sections doc) ''balance_sheet'' =
          Some (Items [FallbackItem ''TOTAL ASSETS'' (Some 5000) ''high'']) \<and>
        map_of (p_sections doc) ''pnl'' = Some (Dict [(''Revenue'', KVvalue (Some 20000000000))]))"
  by code_simp

end
